theory Spec2Isabelle
  imports Complex_Main
begin

section \<open>JavaScript values used by the ledger code\<close>

text \<open>
  A JavaScript string is read as its sequence of code points, which is what a regular
  expression with the \<^verbatim>\<open>u\<close> flag and \<^verbatim>\<open>trim()\<close> look at.
\<close>

type_synonym jsstring = "nat list"

definition ascii :: "string \<Rightarrow> jsstring" where
  "ascii s = map of_char s"

text \<open>The type \<^verbatim>\<open>number\<close>: the finite doubles are rationals; the three others are named.\<close>

datatype number = Finite rat | NaN | PosInfinity | NegInfinity

fun isFinite :: "number \<Rightarrow> bool" where
  "isFinite (Finite q) = True"
| "isFinite NaN = False"
| "isFinite PosInfinity = False"
| "isFinite NegInfinity = False"

datatype jsval = JUndefined | JNull | JBool bool | JNum number | JStr jsstring

text \<open>\<^verbatim>\<open>Boolean(v)\<close>, the test made by \<^verbatim>\<open>if (v)\<close> and \<^verbatim>\<open>!v\<close>.\<close>

fun truthy :: "jsval \<Rightarrow> bool" where
  "truthy JUndefined = False"
| "truthy JNull = False"
| "truthy (JBool b) = b"
| "truthy (JNum (Finite q)) = (q \<noteq> 0)"
| "truthy (JNum NaN) = False"
| "truthy (JNum PosInfinity) = True"
| "truthy (JNum NegInfinity) = True"
| "truthy (JStr s) = (s \<noteq> [])"

text \<open>\<^verbatim>\<open>a ?? b\<close>: the right operand replaces \<^verbatim>\<open>null\<close> and \<^verbatim>\<open>undefined\<close> only.\<close>

fun coalesce :: "jsval \<Rightarrow> jsval \<Rightarrow> jsval" where
  "coalesce JUndefined b = b"
| "coalesce JNull b = b"
| "coalesce a b = a"

text \<open>\<^verbatim>\<open>a === b\<close> on primitive values: \<^verbatim>\<open>NaN\<close> equals nothing.\<close>

fun strict_eq :: "jsval \<Rightarrow> jsval \<Rightarrow> bool" where
  "strict_eq (JNum NaN) b = False"
| "strict_eq a (JNum NaN) = False"
| "strict_eq a b = (a = b)"

text \<open>
  What the code uses of the JavaScript engine and src/ does not define: the Unicode
  table of the general category Letter above the ASCII block (the ASCII block is written
  out below) and \<^verbatim>\<open>String(n)\<close> on a number. They are parameters of the model.
\<close>

record js_engine =
  unicodeLetter :: "nat \<Rightarrow> bool"
  numberToString :: "number \<Rightarrow> jsstring"

fun js_String :: "js_engine \<Rightarrow> jsval \<Rightarrow> jsstring" where
  "js_String E JUndefined = ascii ''undefined''"
| "js_String E JNull = ascii ''null''"
| "js_String E (JBool b) = (if b then ascii ''true'' else ascii ''false'')"
| "js_String E (JNum n) = numberToString E n"
| "js_String E (JStr s) = s"

subsection \<open>Character classes and the two regular expressions\<close>

definition is_digit :: "nat \<Rightarrow> bool" where
  \<comment> \<open>\<^verbatim>\<open>\d\<close>\<close>
  "is_digit c = (48 \<le> c \<and> c \<le> 57)"

definition is_ascii_letter :: "nat \<Rightarrow> bool" where
  "is_ascii_letter c = ((65 \<le> c \<and> c \<le> 90) \<or> (97 \<le> c \<and> c \<le> 122))"

definition is_word :: "nat \<Rightarrow> bool" where
  \<comment> \<open>\<^verbatim>\<open>\w\<close> with the u flag and without the i flag: \<^verbatim>\<open>[A-Za-z0-9_]\<close>\<close>
  "is_word c = (is_ascii_letter c \<or> is_digit c \<or> c = 95)"

definition is_letter :: "js_engine \<Rightarrow> nat \<Rightarrow> bool" where
  \<comment> \<open>\<^verbatim>\<open>\p{L}\<close>\<close>
  "is_letter E c = (if c < 128 then is_ascii_letter c else unicodeLetter E c)"

definition is_space :: "nat \<Rightarrow> bool" where
  \<comment> \<open>\<^verbatim>\<open>\s\<close>, and the characters \<^verbatim>\<open>trim()\<close> strips: WhiteSpace and LineTerminator\<close>
  "is_space c = (c = 9 \<or> c = 10 \<or> c = 11 \<or> c = 12 \<or> c = 13 \<or> c = 32 \<or> c = 160
     \<or> c = 5760 \<or> (8192 \<le> c \<and> c \<le> 8202) \<or> c = 8232 \<or> c = 8233 \<or> c = 8239
     \<or> c = 8287 \<or> c = 12288 \<or> c = 65279)"

definition trim :: "jsstring \<Rightarrow> jsstring" where
  "trim s = rev (dropWhile is_space (rev (dropWhile is_space s)))"

text \<open>
  The regular expressions of the source are sequences of a character class taken once
  or starred. \<open>rx_prefix\<close> is the backtracking matcher at one start position.
\<close>

datatype rx_item = Once "nat \<Rightarrow> bool" | Many "nat \<Rightarrow> bool"

fun rx_prefix :: "bool \<Rightarrow> rx_item list \<Rightarrow> jsstring \<Rightarrow> bool" where
  "rx_prefix anchored_end [] s = (if anchored_end then s = [] else True)"
| "rx_prefix anchored_end (Once p # r) [] = False"
| "rx_prefix anchored_end (Once p # r) (c # s) = (p c \<and> rx_prefix anchored_end r s)"
| "rx_prefix anchored_end (Many p # r) [] = rx_prefix anchored_end r []"
| "rx_prefix anchored_end (Many p # r) (c # s) =
     ((p c \<and> rx_prefix anchored_end (Many p # r) s) \<or> rx_prefix anchored_end r (c # s))"

definition rx_test_anchored :: "rx_item list \<Rightarrow> jsstring \<Rightarrow> bool" where
  \<comment> \<open>\<^verbatim>\<open>/^r$/u.test(s)\<close>\<close>
  "rx_test_anchored r s = rx_prefix True r s"

fun rx_test :: "rx_item list \<Rightarrow> jsstring \<Rightarrow> bool" where
  \<comment> \<open>\<^verbatim>\<open>/r/u.test(s)\<close>: a match may start anywhere\<close>
  "rx_test r [] = rx_prefix False r []"
| "rx_test r (c # s) = (rx_prefix False r (c # s) \<or> rx_test r s)"

definition VALID_NAME_REGEX :: "js_engine \<Rightarrow> rx_item list" where
  \<comment> \<open>\<^verbatim>\<open>/^[\p{L}\d]\w*[\p{L}\d]$/u\<close>\<close>
  "VALID_NAME_REGEX E =
     [Once (\<lambda>c. is_letter E c \<or> is_digit c), Many is_word, Once (\<lambda>c. is_letter E c \<or> is_digit c)]"

definition EXTERNAL_ID_FORBIDDEN :: "rx_item list" where
  \<comment> \<open>\<^verbatim>\<open>/[:\s]/u\<close>\<close>
  "EXTERNAL_ID_FORBIDDEN = [Once (\<lambda>c. c = 58 \<or> is_space c)]"

section \<open>Errors\<close>

text \<open>
  One constructor for each error the modelled code raises; the class and the message
  of the source are given beside it. \<open>Thrown\<close> is a value thrown by the query runner
  or the driver, which the storage never builds itself.
\<close>

datatype error =
    AccountNameEmpty
      \<comment> \<open>LedgerAccountError: Account name cannot be empty\<close>
  | AccountNameInvalid jsstring
      \<comment> \<open>LedgerAccountError: Account name is invalid. ... Name: name\<close>
  | InvalidExternalId
      \<comment> \<open>LedgerAccountError: External id must be a finite number or non-empty string ...\<close>
  | EmptyTransaction
      \<comment> \<open>the failure of the Transaction constructor on zero double entries\<close>
  | QueryRunnerRequired
      \<comment> \<open>LedgerError: QueryRunner or EntityManager is required\<close>
  | ManageTransactionRequiresRunner
      \<comment> \<open>LedgerError: manageTransaction requires a QueryRunner with transaction methods\<close>
  | UnexpectedDatabaseIdShape
      \<comment> \<open>LedgerError: Unexpected database id shape\<close>
  | UnexpectedQueryResultShape
      \<comment> \<open>LedgerError: Unexpected query result shape\<close>
  | ExpectedAtMostOneRow
      \<comment> \<open>LedgerError: Expected at most one row\<close>
  | ExpectedResultRow
      \<comment> \<open>LedgerError: Expected a result row\<close>
  | LedgerNotFound jsstring
      \<comment> \<open>LedgerNotFoundError: Ledger slug is not found\<close>
  | AccountNotFound jsstring
      \<comment> \<open>LedgerNotFoundError: Account accountSlug not found\<close>
  | InvalidLedgerAccountInput
      \<comment> \<open>LedgerError: Invalid ledger account input\<close>
  | AccountTypeAlreadyExists jsstring
      \<comment> \<open>LedgerError: Account type slug already exists.\<close>
  | AccountTypeIdNotFound number
      \<comment> \<open>LedgerError: Account type ID: id not found\<close>
  | ParentAccountTypeNotFound
      \<comment> \<open>LedgerError: Parent account type not found\<close>
  | NormalBalanceMismatch
      \<comment> \<open>LedgerError: Parent account type must have the same normal balance\<close>
  | RangeError
      \<comment> \<open>toISOString on an invalid Date\<close>
  | TypeError
      \<comment> \<open>a call of a property that is not a function\<close>
  | Thrown nat

section \<open>Account references\<close>

datatype EntityExternalId = IdNumber number | IdString jsstring | IdOther
  \<comment> \<open>\<open>IdOther\<close>: a run-time value that is neither a number nor a string\<close>

datatype LedgerAccountRef =
    SystemAccountRef jsstring jsstring
      \<comment> \<open>ledgerSlug, accountSlug\<close>
  | EntityAccountRef jsstring jsstring jsstring EntityExternalId
      \<comment> \<open>ledgerSlug, accountSlug, name, externalId\<close>
  | OtherAccountRef jsstring jsstring
      \<comment> \<open>any other subclass of the abstract class\<close>

fun ledgerSlug :: "LedgerAccountRef \<Rightarrow> jsstring" where
  "ledgerSlug (SystemAccountRef l a) = l"
| "ledgerSlug (EntityAccountRef l a n x) = l"
| "ledgerSlug (OtherAccountRef l a) = l"

fun accountSlug :: "LedgerAccountRef \<Rightarrow> jsstring" where
  "accountSlug (SystemAccountRef l a) = a"
| "accountSlug (EntityAccountRef l a n x) = a"
| "accountSlug (OtherAccountRef l a) = a"

definition validateName :: "js_engine \<Rightarrow> jsstring \<Rightarrow> error + unit" where
  "validateName E name =
     (if name = [] then Inl AccountNameEmpty
      else if \<not> rx_test_anchored (VALID_NAME_REGEX E) name then Inl (AccountNameInvalid name)
      else Inr ())"

fun normalizeExternalId :: "EntityExternalId \<Rightarrow> error + EntityExternalId" where
  "normalizeExternalId (IdNumber n) =
     (if \<not> isFinite n then Inl InvalidExternalId else Inr (IdNumber n))"
| "normalizeExternalId IdOther = Inl InvalidExternalId"
| "normalizeExternalId (IdString s) =
     (if trim s = [] then Inl InvalidExternalId
      else if rx_test EXTERNAL_ID_FORBIDDEN s then Inl InvalidExternalId
      else Inr (IdString s))"

fun externalId_String :: "js_engine \<Rightarrow> EntityExternalId \<Rightarrow> jsstring" where
  \<comment> \<open>\<^verbatim>\<open>String(id)\<close> and \<^verbatim>\<open>id.toString()\<close> on a number or a string; the constructor
      lets no other value through\<close>
  "externalId_String E (IdNumber n) = numberToString E n"
| "externalId_String E (IdString s) = s"
| "externalId_String E IdOther = ascii ''[object Object]''"

definition new_EntityAccountRef ::
  "js_engine \<Rightarrow> jsstring \<Rightarrow> jsstring \<Rightarrow> EntityExternalId \<Rightarrow> error + LedgerAccountRef" where
  "new_EntityAccountRef E ledger name externalId =
     (case validateName E name of
        Inl e \<Rightarrow> Inl e
      | Inr _ \<Rightarrow>
          (case normalizeExternalId externalId of
             Inl e \<Rightarrow> Inl e
           | Inr normalizedExternalId \<Rightarrow>
               Inr (EntityAccountRef ledger
                      (name @ [58] @ externalId_String E normalizedExternalId)
                      name normalizedExternalId)))"

text \<open>
  Modelled from the spec: the constructor of SystemAccountRef, whose file is not among
  the sources. The spec gives it the shared name validation and \<open>accountSlug == name\<close>.
\<close>

definition new_SystemAccountRef ::
  "js_engine \<Rightarrow> jsstring \<Rightarrow> jsstring \<Rightarrow> error + LedgerAccountRef" where
  "new_SystemAccountRef E ledger name =
     (case validateName E name of
        Inl e \<Rightarrow> Inl e
      | Inr _ \<Rightarrow> Inr (SystemAccountRef ledger name))"

text \<open>
  The rule of the specification for a name, in its words: letters, digits, underscores
  or hyphens, non-empty, starting and ending with a letter or digit.
\<close>

definition is_alnum :: "js_engine \<Rightarrow> nat \<Rightarrow> bool" where
  "is_alnum E c = (is_letter E c \<or> is_digit c)"

definition spec_name_rule :: "js_engine \<Rightarrow> jsstring \<Rightarrow> bool" where
  "spec_name_rule E name =
     (name \<noteq> [] \<and> list_all (\<lambda>c. is_alnum E c \<or> c = 95 \<or> c = 45) name
      \<and> is_alnum E (hd name) \<and> is_alnum E (last name))"

text \<open>The shape the regular expression of the source accepts.\<close>

definition regex_name_shape :: "js_engine \<Rightarrow> jsstring \<Rightarrow> bool" where
  "regex_name_shape E name =
     (2 \<le> length name \<and> is_alnum E (hd name) \<and> is_alnum E (last name)
      \<and> list_all is_word (butlast (tl name)))"

text \<open>
  An engine for the closed examples. Its letter table is that of Unicode below 256, and
  it prints the non-negative integers in decimal, as \<^verbatim>\<open>String\<close> does below
  \<open>10^21\<close>; no example uses another number.
\<close>

function decimal :: "nat \<Rightarrow> jsstring" where
  "decimal n = (if n < 10 then [48 + n] else decimal (n div 10) @ [48 + n mod 10])"
  by pat_completeness auto
termination
  by (relation "measure id") auto

declare decimal.simps [simp del]

definition latin1_engine :: js_engine where
  "latin1_engine =
     \<lparr> unicodeLetter = (\<lambda>c. c = 170 \<or> c = 181 \<or> c = 186 \<or> (192 \<le> c \<and> c \<le> 214)
          \<or> (216 \<le> c \<and> c \<le> 246) \<or> (248 \<le> c \<and> c \<le> 255)),
       numberToString = (\<lambda>n. case n of
            Finite q \<Rightarrow> decimal (nat \<lfloor>q\<rfloor>)
          | NaN \<Rightarrow> ascii ''NaN''
          | PosInfinity \<Rightarrow> ascii ''Infinity''
          | NegInfinity \<Rightarrow> ascii ''-Infinity'') \<rparr>"

section \<open>The query runner and the calls made on it\<close>

text \<open>
  A row is an object with named columns; \<open>field\<close> is the property read \<^verbatim>\<open>row[key]\<close>.
  The elements of an answer are taken to be such objects, as a driver returns them.
  Each SQL text of the modelled methods is one constructor of \<open>sql\<close>.
\<close>

type_synonym row = "(string \<times> jsval) list"

definition field :: "row \<Rightarrow> string \<Rightarrow> jsval" where
  "field r k = (case map_of r k of None \<Rightarrow> JUndefined | Some v \<Rightarrow> v)"

definition pickField :: "row \<Rightarrow> string \<Rightarrow> string \<Rightarrow> jsval" where
  "pickField r snakeCase camelCase = coalesce (field r snakeCase) (field r camelCase)"

definition toDatabaseId :: "jsval \<Rightarrow> error + number" where
  "toDatabaseId v = (case v of JNum n \<Rightarrow> Inr n | _ \<Rightarrow> Inl UnexpectedDatabaseIdShape)"

datatype sql =
    SELECT_ledger_BY_slug
  | SELECT_ledger_account_type_BY_slug
  | SELECT_ledger_account_type_BY_id
  | INSERT_ledger_account_type
  | INSERT_ledger_transaction
  | INSERT_ledger_transaction_entry
  | SELECT_ledger_account_id_2
      \<comment> \<open>\<^verbatim>\<open>SELECT ledger_account_id($1, $2) AS id\<close>\<close>
  | SELECT_ledger_account_id_3
      \<comment> \<open>\<^verbatim>\<open>SELECT ledger_account_id($1, $2, $3) AS id\<close>\<close>

datatype date = ValidDate int | InvalidDate
  \<comment> \<open>a Date object: its time value in milliseconds, or the invalid date\<close>

datatype param = P jsval | P_ISODate int
  \<comment> \<open>\<open>P_ISODate t\<close>: the string \<^verbatim>\<open>toISOString()\<close> gives for the time value \<open>t\<close>\<close>

fun toISOString :: "date \<Rightarrow> error + param" where
  "toISOString (ValidDate t) = Inr (P_ISODate t)"
| "toISOString InvalidDate = Inl RangeError"

datatype qresult = ResultArray "row list" | ResultRows "row list" | ResultOther
  \<comment> \<open>an array of rows, an object whose \<^verbatim>\<open>rows\<close> is an array, anything else\<close>

text \<open>
  A method of the runner acts on the world \<open>'w\<close> (the connection and the database
  behind it): it returns or throws, and leaves a new world.
\<close>

type_synonym ('w, 'a) act = "'w \<Rightarrow> (nat + 'a) \<times> 'w"

text \<open>
  \<^verbatim>\<open>QueryRunnerLike\<close> and \<^verbatim>\<open>EntityManagerLike\<close> are structural types: one object type
  with optional properties covers both. \<open>isTransactionActive\<close> is a property the runner
  changes, so it is read from the world.
\<close>

datatype 'w conn = Conn
  (query: "(sql \<Rightarrow> param list \<Rightarrow> ('w, qresult) act) option")
  (startTransaction: "('w, unit) act option")
  (commitTransaction: "('w, unit) act option")
  (rollbackTransaction: "('w, unit) act option")
  (release: "('w, unit) act option")
  (isTransactionActive: "'w \<Rightarrow> jsval")
  (manager: "'w conn option")
  (queryRunner: "'w conn option")

record 'w TransactionalQueryRunner =
  tr_startTransaction :: "('w, unit) act"
  tr_commitTransaction :: "('w, unit) act"
  tr_rollbackTransaction :: "('w, unit) act"
  tr_isTransactionActive :: "'w \<Rightarrow> jsval"

text \<open>The calls the storage makes on the runner, in order, with what a query answered.\<close>

datatype call =
    QueryCall sql "param list" "nat + qresult"
  | StartTransactionCall
  | CommitTransactionCall
  | RollbackTransactionCall
  | ReleaseCall

fun is_query :: "call \<Rightarrow> bool" where
  "is_query (QueryCall q ps r) = True"
| "is_query c = False"

text \<open>
  An asynchronous method of the storage: from the world and the calls made so far to a
  result or a raised error, the new world and the calls made.
\<close>

type_synonym ('w, 'a) io = "'w \<times> call list \<Rightarrow> (error + 'a) \<times> ('w \<times> call list)"

definition io_return :: "'a \<Rightarrow> ('w, 'a) io" where
  "io_return a = (\<lambda>s. (Inr a, s))"

definition io_throw :: "error \<Rightarrow> ('w, 'a) io" where
  "io_throw e = (\<lambda>s. (Inl e, s))"

definition io_lift :: "error + 'a \<Rightarrow> ('w, 'a) io" where
  "io_lift r = (\<lambda>s. (r, s))"

definition io_bind :: "('w, 'a) io \<Rightarrow> ('a \<Rightarrow> ('w, 'b) io) \<Rightarrow> ('w, 'b) io" where
  "io_bind m f = (\<lambda>s. case m s of (Inl e, s') \<Rightarrow> (Inl e, s') | (Inr a, s') \<Rightarrow> f a s')"

definition call_query ::
  "(sql \<Rightarrow> param list \<Rightarrow> ('w, qresult) act) \<Rightarrow> sql \<Rightarrow> param list \<Rightarrow> ('w, qresult) io" where
  "call_query q text ps = (\<lambda>(w, cs).
     case q text ps w of
       (Inl x, w') \<Rightarrow> (Inl (Thrown x), (w', cs @ [QueryCall text ps (Inl x)]))
     | (Inr v, w') \<Rightarrow> (Inr v, (w', cs @ [QueryCall text ps (Inr v)])))"

definition call_method :: "call \<Rightarrow> ('w, unit) act \<Rightarrow> ('w, unit) io" where
  "call_method c m = (\<lambda>(w, cs).
     case m w of
       (Inl x, w') \<Rightarrow> (Inl (Thrown x), (w', cs @ [c]))
     | (Inr v, w') \<Rightarrow> (Inr v, (w', cs @ [c])))"

section \<open>TypeormLedgerStorage\<close>

record 'w TypeormLedgerStorage =
  this_manageTransaction :: bool
  this_runner :: "'w conn"
  this_manager :: "'w conn option"

definition isEntityManagerLike :: "'w conn \<Rightarrow> bool" where
  "isEntityManagerLike v = (query v \<noteq> None \<and> startTransaction v = None)"

definition asTransactional :: "'w conn \<Rightarrow> 'w TransactionalQueryRunner option" where
  "asTransactional c =
     (case (startTransaction c, commitTransaction c, rollbackTransaction c) of
        (Some st, Some co, Some ro) \<Rightarrow>
          Some \<lparr> tr_startTransaction = st, tr_commitTransaction = co,
                 tr_rollbackTransaction = ro,
                 tr_isTransactionActive = isTransactionActive c \<rparr>
      | _ \<Rightarrow> None)"

definition getTransactionRunner ::
  "'w TypeormLedgerStorage \<Rightarrow> 'w TransactionalQueryRunner option" where
  "getTransactionRunner S =
     (case asTransactional (this_runner S) of
        Some r \<Rightarrow> Some r
      | None \<Rightarrow>
          (case this_manager S of
             None \<Rightarrow> None
           | Some m \<Rightarrow>
               (case queryRunner m of
                  None \<Rightarrow> None
                | Some candidate \<Rightarrow> asTransactional candidate)))"

definition new_TypeormLedgerStorage ::
  "'w conn \<Rightarrow> bool option \<Rightarrow> error + 'w TypeormLedgerStorage" where
  "new_TypeormLedgerStorage runnerOrManager options_manageTransaction =
     (let S = \<lparr> this_manageTransaction =
                  (case options_manageTransaction of None \<Rightarrow> True | Some b \<Rightarrow> b),
                this_runner =
                  (if isEntityManagerLike runnerOrManager
                   then (case queryRunner runnerOrManager of
                           Some r \<Rightarrow> r
                         | None \<Rightarrow> Conn (query runnerOrManager) None None None None
                                     (\<lambda>w. JUndefined) None None)
                   else runnerOrManager),
                this_manager =
                  (if isEntityManagerLike runnerOrManager then Some runnerOrManager
                   else manager runnerOrManager) \<rparr>
      in if query (this_runner S) = None then Inl QueryRunnerRequired
         else if this_manageTransaction S \<and> getTransactionRunner S = None
              then Inl ManageTransactionRequiresRunner
         else Inr S)"

definition queryable :: "'w TypeormLedgerStorage \<Rightarrow> 'w conn" where
  "queryable S = (case this_manager S of Some m \<Rightarrow> m | None \<Rightarrow> this_runner S)"

definition queryable_query ::
  "'w TypeormLedgerStorage \<Rightarrow> sql \<Rightarrow> param list \<Rightarrow> ('w, qresult) io" where
  \<comment> \<open>\<^verbatim>\<open>this.queryable.query(query, parameters)\<close>\<close>
  "queryable_query S text ps =
     (case query (queryable S) of
        None \<Rightarrow> io_throw TypeError
      | Some q \<Rightarrow> call_query q text ps)"

definition execute :: "'w TypeormLedgerStorage \<Rightarrow> sql \<Rightarrow> param list \<Rightarrow> ('w, unit) io" where
  "execute S text ps = io_bind (queryable_query S text ps) (\<lambda>_. io_return ())"

definition any_rows ::
  "'w TypeormLedgerStorage \<Rightarrow> sql \<Rightarrow> param list \<Rightarrow> ('w, row list) io" where
  \<comment> \<open>the method \<^verbatim>\<open>any\<close>\<close>
  "any_rows S text ps =
     io_bind (queryable_query S text ps) (\<lambda>result.
       case result of
         ResultArray rows \<Rightarrow> io_return rows
       | ResultRows rows \<Rightarrow> io_return rows
       | ResultOther \<Rightarrow> io_throw UnexpectedQueryResultShape)"

definition maybeOne ::
  "'w TypeormLedgerStorage \<Rightarrow> sql \<Rightarrow> param list \<Rightarrow> ('w, row option) io" where
  "maybeOne S text ps =
     io_bind (any_rows S text ps) (\<lambda>rows.
       if length rows = 0 then io_return None
       else if length rows > 1 then io_throw ExpectedAtMostOneRow
       else io_return (Some (hd rows)))"

definition one :: "'w TypeormLedgerStorage \<Rightarrow> sql \<Rightarrow> param list \<Rightarrow> ('w, row) io" where
  "one S text ps =
     io_bind (maybeOne S text ps) (\<lambda>r.
       case r of None \<Rightarrow> io_throw ExpectedResultRow | Some r \<Rightarrow> io_return r)"

definition withTransaction ::
  "'w TypeormLedgerStorage \<Rightarrow> ('w, 'a) io \<Rightarrow> ('w, 'a) io" where
  "withTransaction S routine =
     (if \<not> this_manageTransaction S then routine
      else case getTransactionRunner S of
        None \<Rightarrow> io_throw ManageTransactionRequiresRunner
      | Some runner \<Rightarrow> (\<lambda>s.
          if truthy (tr_isTransactionActive runner (fst s)) then routine s
          else
            (case call_method StartTransactionCall (tr_startTransaction runner) s of
               (Inl e, s1) \<Rightarrow> (Inl e, s1)
             | (Inr _, s1) \<Rightarrow>
                 (case io_bind routine (\<lambda>result.
                         io_bind (call_method CommitTransactionCall (tr_commitTransaction runner))
                           (\<lambda>_. io_return result)) s1 of
                    (Inr result, s2) \<Rightarrow> (Inr result, s2)
                  | (Inl error, s2) \<Rightarrow>
                      io_bind (call_method RollbackTransactionCall (tr_rollbackTransaction runner))
                        (\<lambda>_. io_throw error) s2))))"

definition storage_release :: "'w TypeormLedgerStorage \<Rightarrow> ('w, unit) io" where
  \<comment> \<open>the method \<^verbatim>\<open>release\<close> of the storage\<close>
  "storage_release S =
     (case release (this_runner S) of
        Some rel \<Rightarrow> call_method ReleaseCall rel
      | None \<Rightarrow>
          (case this_manager S of
             None \<Rightarrow> io_return ()
           | Some m \<Rightarrow>
               (case queryRunner m of
                  None \<Rightarrow> io_return ()
                | Some qr \<Rightarrow>
                    (case release qr of
                       None \<Rightarrow> io_return ()
                     | Some rel \<Rightarrow> call_method ReleaseCall rel))))"

subsection \<open>Ledgers and account types\<close>

text \<open>
  Modelled from the spec: the types of \<^verbatim>\<open>types.js\<close>, which is not among the sources
  (\<^verbatim>\<open>DB_ID\<close>, a number, and the input and persisted shapes of a ledger, an account
  type and a transaction), with the fields the methods read and write.
\<close>

datatype DebitCredit = DEBIT | CREDIT

fun debitCredit_val :: "DebitCredit \<Rightarrow> jsval" where
  "debitCredit_val DEBIT = JStr (ascii ''DEBIT'')"
| "debitCredit_val CREDIT = JStr (ascii ''CREDIT'')"

record PersistedLedger =
  pl_description :: jsstring
  pl_id :: number
  pl_ledgerCurrencyId :: number
  pl_name :: jsstring
  pl_slug :: jsstring

definition getLedgerIdBySlug ::
  "js_engine \<Rightarrow> 'w TypeormLedgerStorage \<Rightarrow> jsstring \<Rightarrow> ('w, PersistedLedger) io" where
  "getLedgerIdBySlug E S slug =
     io_bind (maybeOne S SELECT_ledger_BY_slug [P (JStr slug)]) (\<lambda>r.
       case r of
         None \<Rightarrow> io_throw (LedgerNotFound slug)
       | Some row \<Rightarrow>
           io_bind (io_lift (toDatabaseId (field row ''id''))) (\<lambda>ledgerId.
           io_bind (io_lift (toDatabaseId
                      (pickField row ''ledger_currency_id'' ''ledgerCurrencyId''))) (\<lambda>currencyId.
             io_return \<lparr> pl_description = js_String E (field row ''description''),
                         pl_id = ledgerId,
                         pl_ledgerCurrencyId = currencyId,
                         pl_name = js_String E (field row ''name''),
                         pl_slug = js_String E (field row ''slug'') \<rparr>)))"

text \<open>
  The fields the source casts without a check keep the value the row holds.
\<close>

record PersistedLedgerAccountType =
  at_description :: jsval
  at_id :: jsval
  at_isEntityLedgerAccount :: jsval
  at_name :: jsval
  at_normalBalance :: jsval
  at_parentLedgerAccountTypeId :: jsval
  at_slug :: jsval

record InputLedgerAccountType =
  in_description :: jsval
  in_isEntityLedgerAccount :: bool
  in_name :: jsstring
  in_normalBalance :: DebitCredit
  in_parentLedgerAccountTypeId :: "number option"
  in_slug :: jsstring

definition mapLedgerAccountType :: "row \<Rightarrow> error + PersistedLedgerAccountType" where
  "mapLedgerAccountType row =
     (let rowId = pickField row ''id'' ''id'';
          description = pickField row ''description'' ''description''
      in case toDatabaseId rowId of
           Inl e \<Rightarrow> Inl e
         | Inr n \<Rightarrow>
             Inr \<lparr> at_description = coalesce description (JStr []),
                   at_id = JNum n,
                   at_isEntityLedgerAccount =
                     pickField row ''is_entity_ledger_account'' ''isEntityLedgerAccount'',
                   at_name = pickField row ''name'' ''name'',
                   at_normalBalance = pickField row ''normal_balance'' ''normalBalance'',
                   at_parentLedgerAccountTypeId =
                     pickField row ''parent_ledger_account_type_id'' ''parentLedgerAccountTypeId'',
                   at_slug = pickField row ''slug'' ''slug'' \<rparr>)"

definition findAccountTypeBySlug ::
  "'w TypeormLedgerStorage \<Rightarrow> jsstring \<Rightarrow> ('w, PersistedLedgerAccountType option) io" where
  "findAccountTypeBySlug S slug =
     io_bind (maybeOne S SELECT_ledger_account_type_BY_slug [P (JStr slug)]) (\<lambda>r.
       case r of
         None \<Rightarrow> io_return None
       | Some row \<Rightarrow> io_bind (io_lift (mapLedgerAccountType row)) (\<lambda>t. io_return (Some t)))"

definition getSavedAccountTypeById ::
  "'w TypeormLedgerStorage \<Rightarrow> number \<Rightarrow> ('w, PersistedLedgerAccountType) io" where
  "getSavedAccountTypeById S typeId =
     io_bind (maybeOne S SELECT_ledger_account_type_BY_id [P (JNum typeId)]) (\<lambda>r.
       case r of
         None \<Rightarrow> io_throw (AccountTypeIdNotFound typeId)
       | Some row \<Rightarrow> io_lift (mapLedgerAccountType row))"

definition object_truthy :: "PersistedLedgerAccountType \<Rightarrow> bool" where
  \<comment> \<open>\<^verbatim>\<open>Boolean(o)\<close> on an object\<close>
  "object_truthy a = True"

definition insertAccountType ::
  "'w TypeormLedgerStorage \<Rightarrow> InputLedgerAccountType \<Rightarrow> ('w, PersistedLedgerAccountType) io" where
  "insertAccountType S i =
     io_bind (findAccountTypeBySlug S (in_slug i)) (\<lambda>existingAccount.
       if (case existingAccount of
             None \<Rightarrow> False
           | Some a \<Rightarrow> \<not> truthy (at_isEntityLedgerAccount a))
       then io_throw (AccountTypeAlreadyExists (in_slug i))
       else
         io_bind
           (case in_parentLedgerAccountTypeId i of
              None \<Rightarrow> io_return ()
            | Some parentId \<Rightarrow>
                if \<not> truthy (JNum parentId) then io_return ()
                else
                  io_bind (getSavedAccountTypeById S parentId) (\<lambda>parentAccount.
                    if \<not> object_truthy parentAccount then io_throw ParentAccountTypeNotFound
                    else if \<not> strict_eq (at_normalBalance parentAccount)
                                 (debitCredit_val (in_normalBalance i))
                    then io_throw NormalBalanceMismatch
                    else io_return ()))
           (\<lambda>_.
             io_bind (one S INSERT_ledger_account_type
                        [P (JStr (in_slug i)), P (JStr (in_name i)), P (in_description i),
                         P (debitCredit_val (in_normalBalance i)),
                         P (JBool (in_isEntityLedgerAccount i)),
                         P (case in_parentLedgerAccountTypeId i of
                              None \<Rightarrow> JNull | Some parentId \<Rightarrow> JNum parentId)])
               (\<lambda>row.
                 io_return \<lparr> at_description = in_description i,
                             at_id = field row ''id'',
                             at_isEntityLedgerAccount = JBool (in_isEntityLedgerAccount i),
                             at_name = JStr (in_name i),
                             at_normalBalance = debitCredit_val (in_normalBalance i),
                             at_parentLedgerAccountTypeId =
                               (case in_parentLedgerAccountTypeId i of
                                  None \<Rightarrow> JNull | Some parentId \<Rightarrow> JNum parentId),
                             at_slug = JStr (in_slug i) \<rparr>)))"

subsection \<open>Transactions\<close>

text \<open>
  Modelled from the spec: Unit, Entry, DoubleEntry, TransactionDoubleEntries and
  Transaction, whose files are not among the sources. The spec gives a Unit a
  full-precision representation, an Entry an account, an action and an amount, a
  DoubleEntry its debits and credits, \<open>flatEntries\<close> all entries of all double entries
  in push order, and a Transaction a ledger slug, a description, a non-empty collection
  and a posting timestamp that defaults to the time of construction. Within one double
  entry the spec fixes no order; the debits are taken first, and no theorem depends on it.
\<close>

record Unit =
  fullPrecision :: jsstring
  currencyCode :: jsstring
  minimumFractionDigits :: nat

definition toFullPrecision :: "Unit \<Rightarrow> jsstring" where
  "toFullPrecision u = fullPrecision u"

record Entry =
  account :: LedgerAccountRef
  action :: DebitCredit
  amount :: Unit

record DoubleEntry =
  debits :: "Entry list"
  credits :: "Entry list"

type_synonym TransactionDoubleEntries = "DoubleEntry list"

definition flatEntries :: "TransactionDoubleEntries \<Rightarrow> Entry list" where
  "flatEntries ds = concat (map (\<lambda>d. debits d @ credits d) ds)"

record Transaction =
  tx_ledgerSlug :: jsstring
  tx_description :: jsval
  tx_postedAt :: "date option"
  transactionDoubleEntries :: TransactionDoubleEntries

definition new_Transaction ::
  "('w \<Rightarrow> int) \<Rightarrow> jsstring \<Rightarrow> TransactionDoubleEntries \<Rightarrow> jsval \<Rightarrow> date option \<Rightarrow> 'w
     \<Rightarrow> error + Transaction" where
  "new_Transaction clock slug entries description postedAt w =
     (if entries = [] then Inl EmptyTransaction
      else Inr \<lparr> tx_ledgerSlug = slug,
                 tx_description = description,
                 tx_postedAt = Some (case postedAt of
                                       None \<Rightarrow> ValidDate (clock w)
                                     | Some d \<Rightarrow> d),
                 transactionDoubleEntries = entries \<rparr>)"

record PersistedTransaction =
  pt_description :: jsval
  pt_id :: jsval
  pt_ledgerId :: number
  pt_postedAt :: date

definition resolveLedgerAccountId ::
  "js_engine \<Rightarrow> 'w TypeormLedgerStorage \<Rightarrow> number \<Rightarrow> LedgerAccountRef \<Rightarrow> ('w, jsval) io" where
  "resolveLedgerAccountId E S ledgerId acc =
     (case acc of
        SystemAccountRef l slug \<Rightarrow>
          io_bind (maybeOne S SELECT_ledger_account_id_2 [P (JNum ledgerId), P (JStr slug)])
            (\<lambda>r. let rowId = (case r of None \<Rightarrow> JUndefined | Some row \<Rightarrow> field row ''id'')
                  in if \<not> truthy rowId then io_throw (AccountNotFound slug)
                     else io_return rowId)
      | EntityAccountRef l slug name externalId \<Rightarrow>
          io_bind (maybeOne S SELECT_ledger_account_id_3
                     [P (JNum ledgerId), P (JStr name), P (JStr (externalId_String E externalId))])
            (\<lambda>r. let rowId = (case r of None \<Rightarrow> JUndefined | Some row \<Rightarrow> field row ''id'')
                  in if \<not> truthy rowId then io_throw (AccountNotFound slug)
                     else io_return rowId)
      | OtherAccountRef l slug \<Rightarrow> io_throw InvalidLedgerAccountInput)"

text \<open>The loop over \<^verbatim>\<open>flatEntries()\<close> in \<^verbatim>\<open>insertTransaction\<close>.\<close>

fun insertEntries ::
  "js_engine \<Rightarrow> 'w TypeormLedgerStorage \<Rightarrow> number \<Rightarrow> jsval \<Rightarrow> Entry list \<Rightarrow> ('w, unit) io" where
  "insertEntries E S ledgerId ledgerTransactionId [] = io_return ()"
| "insertEntries E S ledgerId ledgerTransactionId (entry # entries) =
     io_bind (resolveLedgerAccountId E S ledgerId (account entry)) (\<lambda>ledgerAccountId.
     io_bind (execute S INSERT_ledger_transaction_entry
                [P ledgerTransactionId, P ledgerAccountId,
                 P (debitCredit_val (action entry)),
                 P (JStr (toFullPrecision (amount entry)))]) (\<lambda>_.
       insertEntries E S ledgerId ledgerTransactionId entries))"

text \<open>The routine \<^verbatim>\<open>insertTransaction\<close> hands to \<^verbatim>\<open>withTransaction\<close>.\<close>

definition insertTransaction_routine ::
  "js_engine \<Rightarrow> 'w TypeormLedgerStorage \<Rightarrow> Transaction \<Rightarrow> number \<Rightarrow> date
     \<Rightarrow> ('w, PersistedTransaction) io" where
  "insertTransaction_routine E S ledgerTransaction ledgerId postedAt =
     io_bind (io_lift (toISOString postedAt)) (\<lambda>iso.
     io_bind (one S INSERT_ledger_transaction
                [P (JNum ledgerId), iso, P (tx_description ledgerTransaction)]) (\<lambda>row.
     io_bind (insertEntries E S ledgerId (field row ''id'')
                (flatEntries (transactionDoubleEntries ledgerTransaction))) (\<lambda>_.
       io_return \<lparr> pt_description = tx_description ledgerTransaction,
                   pt_id = field row ''id'',
                   pt_ledgerId = ledgerId,
                   pt_postedAt = postedAt \<rparr>)))"

definition new_Date :: "('w \<Rightarrow> int) \<Rightarrow> ('w, date) io" where
  \<comment> \<open>\<^verbatim>\<open>new Date()\<close>: the clock of the world is read\<close>
  "new_Date clock = (\<lambda>s. (Inr (ValidDate (clock (fst s))), s))"

definition insertTransaction ::
  "js_engine \<Rightarrow> ('w \<Rightarrow> int) \<Rightarrow> 'w TypeormLedgerStorage \<Rightarrow> Transaction
     \<Rightarrow> ('w, PersistedTransaction) io" where
  "insertTransaction E clock S ledgerTransaction =
     io_bind (getLedgerIdBySlug E S (tx_ledgerSlug ledgerTransaction)) (\<lambda>ledger.
     io_bind (case tx_postedAt ledgerTransaction of
                Some d \<Rightarrow> io_return d
              | None \<Rightarrow> new_Date clock) (\<lambda>postedAt.
       withTransaction S
         (insertTransaction_routine E S ledgerTransaction (pl_id ledger) postedAt)))"

section \<open>PgQueryRunner, the runner of the integration tests\<close>

text \<open>
  The runner holds a pool and, once connected, a client of the pg library. The four
  operations of the library it calls are parameters: the library is not part of the
  sources.
\<close>

datatype pg_text = BEGIN | COMMIT | ROLLBACK | Statement sql

record 'd pg_library =
  pool_connect :: "('d, nat) act"
  client_query :: "nat \<Rightarrow> pg_text \<Rightarrow> param list \<Rightarrow> ('d, row list) act"
  client_release :: "nat \<Rightarrow> ('d, unit) act"
  pool_end :: "('d, unit) act"

record 'd PgQueryRunner =
  pg_pool :: 'd
  pg_client :: "nat option"
  pg_isTransactionActive :: bool

definition act_bind :: "('w, 'a) act \<Rightarrow> ('a \<Rightarrow> ('w, 'b) act) \<Rightarrow> ('w, 'b) act" where
  "act_bind m f = (\<lambda>w. case m w of (Inl x, w') \<Rightarrow> (Inl x, w') | (Inr a, w') \<Rightarrow> f a w')"

definition on_pool :: "('d, 'a) act \<Rightarrow> ('d PgQueryRunner, 'a) act" where
  "on_pool m = (\<lambda>this. case m (pg_pool this) of (r, d) \<Rightarrow> (r, this\<lparr>pg_pool := d\<rparr>))"

definition PgQueryRunner_getClient :: "'d pg_library \<Rightarrow> ('d PgQueryRunner, nat) act" where
  "PgQueryRunner_getClient L = (\<lambda>this.
     case pg_client this of
       Some c \<Rightarrow> (Inr c, this)
     | None \<Rightarrow>
         act_bind (on_pool (pool_connect L))
           (\<lambda>c this'. (Inr c, this'\<lparr>pg_client := Some c\<rparr>)) this)"

definition PgQueryRunner_query ::
  "'d pg_library \<Rightarrow> sql \<Rightarrow> param list \<Rightarrow> ('d PgQueryRunner, qresult) act" where
  "PgQueryRunner_query L text ps =
     act_bind (PgQueryRunner_getClient L) (\<lambda>c.
     act_bind (on_pool (client_query L c (Statement text) ps)) (\<lambda>rows this.
       (Inr (ResultArray rows), this)))"

definition PgQueryRunner_release :: "'d pg_library \<Rightarrow> ('d PgQueryRunner, unit) act" where
  "PgQueryRunner_release L = (\<lambda>this.
     case pg_client this of
       Some c \<Rightarrow>
         act_bind (on_pool (client_release L c))
           (\<lambda>_ this'. on_pool (pool_end L) (this'\<lparr>pg_client := None\<rparr>)) this
     | None \<Rightarrow> on_pool (pool_end L) this)"

definition PgQueryRunner_startTransaction :: "'d pg_library \<Rightarrow> ('d PgQueryRunner, unit) act" where
  "PgQueryRunner_startTransaction L =
     act_bind (PgQueryRunner_getClient L) (\<lambda>c.
     act_bind (on_pool (client_query L c BEGIN [])) (\<lambda>_ this.
       (Inr (), this\<lparr>pg_isTransactionActive := True\<rparr>)))"

definition PgQueryRunner_commitTransaction :: "'d pg_library \<Rightarrow> ('d PgQueryRunner, unit) act" where
  "PgQueryRunner_commitTransaction L = (\<lambda>this.
     case pg_client this of
       None \<Rightarrow> (Inr (), this)
     | Some c \<Rightarrow>
         act_bind (on_pool (client_query L c COMMIT []))
           (\<lambda>_ this'. PgQueryRunner_release L (this'\<lparr>pg_isTransactionActive := False\<rparr>)) this)"

definition PgQueryRunner_rollbackTransaction :: "'d pg_library \<Rightarrow> ('d PgQueryRunner, unit) act" where
  "PgQueryRunner_rollbackTransaction L = (\<lambda>this.
     case pg_client this of
       None \<Rightarrow> (Inr (), this)
     | Some c \<Rightarrow>
         act_bind (on_pool (client_query L c ROLLBACK []))
           (\<lambda>_ this'. PgQueryRunner_release L (this'\<lparr>pg_isTransactionActive := False\<rparr>)) this)"

definition PgQueryRunner_conn :: "'d pg_library \<Rightarrow> 'd PgQueryRunner conn" where
  \<comment> \<open>a PgQueryRunner as the storage sees it\<close>
  "PgQueryRunner_conn L =
     Conn (Some (PgQueryRunner_query L))
          (Some (PgQueryRunner_startTransaction L))
          (Some (PgQueryRunner_commitTransaction L))
          (Some (PgQueryRunner_rollbackTransaction L))
          (Some (PgQueryRunner_release L))
          (\<lambda>this. JBool (pg_isTransactionActive this))
          None None"

subsection \<open>A scripted library for the closed examples\<close>

text \<open>
  The pool of the examples answers every statement from a script, counts the statements
  as its clock, hands out client 0, and refuses a second \<^verbatim>\<open>end()\<close> and a connection
  after \<^verbatim>\<open>end()\<close>.
\<close>

record script_pool =
  sp_ended :: bool
  sp_time :: int

definition script_library ::
  "(pg_text \<Rightarrow> param list \<Rightarrow> nat + row list) \<Rightarrow> script_pool pg_library" where
  "script_library answer =
     \<lparr> pool_connect = (\<lambda>d. if sp_ended d then (Inl 1, d) else (Inr 0, d)),
       client_query = (\<lambda>c t ps d. (answer t ps, d\<lparr>sp_time := sp_time d + 1\<rparr>)),
       client_release = (\<lambda>c d. (Inr (), d)),
       pool_end = (\<lambda>d. if sp_ended d then (Inl 2, d) else (Inr (), d\<lparr>sp_ended := True\<rparr>)) \<rparr>"

definition fresh_runner :: "script_pool PgQueryRunner" where
  \<comment> \<open>the runner after its constructor, at time 0\<close>
  "fresh_runner = \<lparr> pg_pool = \<lparr> sp_ended = False, sp_time = 0 \<rparr>, pg_client = None,
                    pg_isTransactionActive = False \<rparr>"

definition runner_clock :: "script_pool PgQueryRunner \<Rightarrow> int" where
  "runner_clock this = sp_time (pg_pool this)"

definition pg_storage ::
  "(pg_text \<Rightarrow> param list \<Rightarrow> nat + row list) \<Rightarrow> bool
     \<Rightarrow> script_pool PgQueryRunner TypeormLedgerStorage" where
  \<comment> \<open>the fields \<^verbatim>\<open>new TypeormLedgerStorage(runner, { manageTransaction })\<close> sets\<close>
  "pg_storage answer manage =
     \<lparr> this_manageTransaction = manage,
       this_runner = PgQueryRunner_conn (script_library answer),
       this_manager = None \<rparr>"

section \<open>Notions used in the statements\<close>

text \<open>Every call a method adds to the calls made so far satisfies \<open>Q\<close>.\<close>

definition appends :: "(call \<Rightarrow> bool) \<Rightarrow> ('w, 'a) io \<Rightarrow> bool" where
  "appends Q m = (\<forall>w cs r w' cs'. m (w, cs) = (r, (w', cs')) \<longrightarrow>
                    (\<exists>new. cs' = cs @ new \<and> list_all Q new))"

text \<open>The method never raises the error \<open>e\<close>.\<close>

definition never_raises :: "error \<Rightarrow> ('w, 'a) io \<Rightarrow> bool" where
  "never_raises e m = (\<forall>s. fst (m s) \<noteq> Inl e)"

text \<open>The rows of an answer, the row \<^verbatim>\<open>maybeOne\<close> returns from it, and its \<^verbatim>\<open>id\<close>.\<close>

fun rows_of :: "qresult \<Rightarrow> row list option" where
  "rows_of (ResultArray rows) = Some rows"
| "rows_of (ResultRows rows) = Some rows"
| "rows_of ResultOther = None"

definition only_row :: "qresult \<Rightarrow> row option" where
  "only_row v = (case rows_of v of Some [r] \<Rightarrow> Some r | _ \<Rightarrow> None)"

definition answered_id :: "qresult \<Rightarrow> jsval" where
  "answered_id v = (case only_row v of Some r \<Rightarrow> field r ''id'' | None \<Rightarrow> JUndefined)"

text \<open>The query that resolves an account reference, when the reference has one.\<close>

fun resolve_request ::
  "js_engine \<Rightarrow> number \<Rightarrow> LedgerAccountRef \<Rightarrow> (sql \<times> param list) option" where
  "resolve_request E ledgerId (SystemAccountRef l slug) =
     Some (SELECT_ledger_account_id_2, [P (JNum ledgerId), P (JStr slug)])"
| "resolve_request E ledgerId (EntityAccountRef l slug name externalId) =
     Some (SELECT_ledger_account_id_3,
           [P (JNum ledgerId), P (JStr name), P (JStr (externalId_String E externalId))])"
| "resolve_request E ledgerId (OtherAccountRef l slug) = None"

text \<open>
  The calls of the loop for a list of entries, given for each entry the answer to its
  resolving query and the answer to its insert: the resolving query, then the insert
  with the transaction id, the resolved id, the action and the full-precision amount.
\<close>

fun entry_calls ::
  "js_engine \<Rightarrow> number \<Rightarrow> jsval \<Rightarrow> Entry list \<Rightarrow> (qresult \<times> qresult) list \<Rightarrow> call list" where
  "entry_calls E ledgerId transactionId (e # es) ((v, v') # answers) =
     (case resolve_request E ledgerId (account e) of
        None \<Rightarrow> []
      | Some (t, ps) \<Rightarrow>
          [QueryCall t ps (Inr v),
           QueryCall INSERT_ledger_transaction_entry
             [P transactionId, P (answered_id v), P (debitCredit_val (action e)),
              P (JStr (toFullPrecision (amount e)))] (Inr v')])
     @ entry_calls E ledgerId transactionId es answers"
| "entry_calls E ledgerId transactionId es answers = []"

text \<open>
  The call owns the transaction boundary: the ledger was found, the storage manages
  transactions, and its transaction runner reports none active at that moment.
\<close>

definition owns_boundary ::
  "js_engine \<Rightarrow> 'w TypeormLedgerStorage \<Rightarrow> Transaction \<Rightarrow> 'w \<times> call list \<Rightarrow> bool" where
  "owns_boundary E S ledgerTransaction s =
     (case getLedgerIdBySlug E S (tx_ledgerSlug ledgerTransaction) s of
        (Inl e, s1) \<Rightarrow> False
      | (Inr ledger, s1) \<Rightarrow>
          this_manageTransaction S
          \<and> (case getTransactionRunner S of
               None \<Rightarrow> False
             | Some runner \<Rightarrow> \<not> truthy (tr_isTransactionActive runner (fst s1))))"

definition postedAt_at :: "('w \<Rightarrow> int) \<Rightarrow> Transaction \<Rightarrow> 'w \<Rightarrow> date" where
  \<comment> \<open>\<^verbatim>\<open>ledgerTransaction.postedAt ?? new Date()\<close> in the world \<open>w\<close>\<close>
  "postedAt_at clock ledgerTransaction w =
     (case tx_postedAt ledgerTransaction of Some d \<Rightarrow> d | None \<Rightarrow> ValidDate (clock w))"


definition is_insert_transaction :: "call \<Rightarrow> bool" where
  "is_insert_transaction c =
     (case c of QueryCall t ps r \<Rightarrow> t = INSERT_ledger_transaction | _ \<Rightarrow> False)"

definition posted_at_of :: "call \<Rightarrow> param option" where
  \<comment> \<open>the second parameter of an insert of a transaction row\<close>
  "posted_at_of c =
     (case c of
        QueryCall t ps r \<Rightarrow>
          (if t = INSERT_ledger_transaction
           then (case ps of [a, postedAt, d] \<Rightarrow> Some postedAt | _ \<Rightarrow> None)
           else None)
      | _ \<Rightarrow> None)"

subsection \<open>The database of the closed examples\<close>

text \<open>
  The script answers as the seeded database of the integration tests would: one ledger
  \<^verbatim>\<open>TYPEORM_LEDGER\<close> with id 1, the account types given as rows, the system account
  \<^verbatim>\<open>SYSTEM_INCOME_PAID_PROJECTS\<close> with id 5, entity accounts provisioned with id 6, a
  new transaction with id 10 and a new account type with id 3. The outcome of
  \<^verbatim>\<open>ROLLBACK\<close> is a parameter.
\<close>

definition ledger_row :: row where
  "ledger_row =
     [(''id'', JNum (Finite 1)), (''name'', JStr (ascii ''TypeORM Ledger'')),
      (''description'', JStr (ascii ''TypeORM test ledger'')),
      (''slug'', JStr (ascii ''TYPEORM_LEDGER'')), (''ledger_currency_id'', JNum (Finite 1))]"

definition type_row :: "rat \<Rightarrow> string \<Rightarrow> string \<Rightarrow> bool \<Rightarrow> row" where
  "type_row n slug balance entity =
     [(''id'', JNum (Finite n)), (''slug'', JStr (ascii slug)), (''name'', JStr (ascii slug)),
      (''description'', JNull), (''normal_balance'', JStr (ascii balance)),
      (''is_entity_ledger_account'', JBool entity),
      (''parent_ledger_account_type_id'', JNull)]"

definition seeded_types :: "row list" where
  "seeded_types =
     [type_row 1 ''SYSTEM_INCOME'' ''CREDIT'' False,
      type_row 2 ''USER_RECEIVABLES'' ''DEBIT'' True]"

definition script :: "row list \<Rightarrow> nat + row list \<Rightarrow> pg_text \<Rightarrow> param list \<Rightarrow> nat + row list" where
  "script types rollback t ps =
     (case t of
        BEGIN \<Rightarrow> Inr []
      | COMMIT \<Rightarrow> Inr []
      | ROLLBACK \<Rightarrow> rollback
      | Statement q \<Rightarrow>
          (case q of
             SELECT_ledger_BY_slug \<Rightarrow>
               (if ps = [P (JStr (ascii ''TYPEORM_LEDGER''))] then Inr [ledger_row] else Inr [])
           | SELECT_ledger_account_type_BY_slug \<Rightarrow>
               Inr (filter (\<lambda>r. ps = [P (field r ''slug'')]) types)
           | SELECT_ledger_account_type_BY_id \<Rightarrow>
               Inr (filter (\<lambda>r. ps = [P (field r ''id'')]) types)
           | INSERT_ledger_account_type \<Rightarrow> Inr [ [(''id'', JNum (Finite 3))] ]
           | INSERT_ledger_transaction \<Rightarrow> Inr [ [(''id'', JNum (Finite 10))] ]
           | INSERT_ledger_transaction_entry \<Rightarrow> Inr []
           | SELECT_ledger_account_id_2 \<Rightarrow>
               (if ps = [P (JNum (Finite 1)), P (JStr (ascii ''SYSTEM_INCOME_PAID_PROJECTS''))]
                then Inr [ [(''id'', JNum (Finite 5))] ] else Inr [ [(''id'', JNull)] ])
           | SELECT_ledger_account_id_3 \<Rightarrow> Inr [ [(''id'', JNum (Finite 6))] ]))"

definition seeded_storage :: "bool \<Rightarrow> script_pool PgQueryRunner TypeormLedgerStorage" where
  "seeded_storage manage = pg_storage (script seeded_types (Inr [])) manage"

definition usd100 :: Unit where
  "usd100 = \<lparr> fullPrecision = ascii ''100'', currencyCode = ascii ''USD'',
              minimumFractionDigits = 2 \<rparr>"

definition payment_entries :: "string \<Rightarrow> TransactionDoubleEntries" where
  \<comment> \<open>the double entry of the integration test, crediting the system account named\<close>
  "payment_entries income =
     [\<lparr> debits = [\<lparr> account = EntityAccountRef (ascii ''TYPEORM_LEDGER'')
                                 (ascii ''USER_RECEIVABLES:2'') (ascii ''USER_RECEIVABLES'')
                                 (IdNumber (Finite 2)),
                     action = DEBIT, amount = usd100 \<rparr>],
        credits = [\<lparr> account = SystemAccountRef (ascii ''TYPEORM_LEDGER'') (ascii income),
                      action = CREDIT, amount = usd100 \<rparr>] \<rparr>]"

definition payment :: "string \<Rightarrow> Transaction" where
  \<comment> \<open>the transaction of the integration test, built at time 0 with no postedAt given\<close>
  "payment income =
     \<lparr> tx_ledgerSlug = ascii ''TYPEORM_LEDGER'',
       tx_description = JStr (ascii ''User receivable collected''),
       tx_postedAt = Some (ValidDate 0),
       transactionDoubleEntries = payment_entries income \<rparr>"

definition child_type :: "number option \<Rightarrow> string \<Rightarrow> InputLedgerAccountType" where
  "child_type parent slug =
     \<lparr> in_description = JNull, in_isEntityLedgerAccount = False, in_name = ascii slug,
       in_normalBalance = CREDIT, in_parentLedgerAccountTypeId = parent,
       in_slug = ascii slug \<rparr>"

text \<open>The states and calls the examples pass through.\<close>

definition runner_at :: "int \<Rightarrow> bool \<Rightarrow> script_pool PgQueryRunner" where
  \<comment> \<open>the connected runner after \<open>n\<close> statements\<close>
  "runner_at n active = \<lparr> pg_pool = \<lparr> sp_ended = False, sp_time = n \<rparr>, pg_client = Some 0,
                          pg_isTransactionActive = active \<rparr>"

definition ended_runner :: "int \<Rightarrow> script_pool PgQueryRunner" where
  \<comment> \<open>the runner after its release\<close>
  "ended_runner n = \<lparr> pg_pool = \<lparr> sp_ended = True, sp_time = n \<rparr>, pg_client = None,
                      pg_isTransactionActive = False \<rparr>"

definition pg_transactional ::
  "(pg_text \<Rightarrow> param list \<Rightarrow> nat + row list) \<Rightarrow> script_pool PgQueryRunner TransactionalQueryRunner" where
  "pg_transactional answer =
     \<lparr> tr_startTransaction = PgQueryRunner_startTransaction (script_library answer),
       tr_commitTransaction = PgQueryRunner_commitTransaction (script_library answer),
       tr_rollbackTransaction = PgQueryRunner_rollbackTransaction (script_library answer),
       tr_isTransactionActive = (\<lambda>this. JBool (pg_isTransactionActive this)) \<rparr>"

definition good_payment :: Transaction where
  "good_payment = payment ''SYSTEM_INCOME_PAID_PROJECTS''"

definition bad_payment :: Transaction where
  \<comment> \<open>its credit names a system account that does not exist\<close>
  "bad_payment = payment ''SYSTEM_UNKNOWN''"

definition seeded_ledger :: PersistedLedger where
  "seeded_ledger =
     \<lparr> pl_description = ascii ''TypeORM test ledger'', pl_id = Finite 1,
       pl_ledgerCurrencyId = Finite 1, pl_name = ascii ''TypeORM Ledger'',
       pl_slug = ascii ''TYPEORM_LEDGER'' \<rparr>"

definition persisted_payment :: PersistedTransaction where
  "persisted_payment =
     \<lparr> pt_description = JStr (ascii ''User receivable collected''), pt_id = JNum (Finite 10),
       pt_ledgerId = Finite 1, pt_postedAt = ValidDate 0 \<rparr>"

definition ledger_lookup_call :: call where
  "ledger_lookup_call =
     QueryCall SELECT_ledger_BY_slug [P (JStr (ascii ''TYPEORM_LEDGER''))]
       (Inr (ResultArray [ledger_row]))"

definition payment_row_call :: call where
  "payment_row_call =
     QueryCall INSERT_ledger_transaction
       [P (JNum (Finite 1)), P_ISODate 0, P (JStr (ascii ''User receivable collected''))]
       (Inr (ResultArray [ [(''id'', JNum (Finite 10))] ]))"

definition debit_calls :: "call list" where
  "debit_calls =
     [QueryCall SELECT_ledger_account_id_3
        [P (JNum (Finite 1)), P (JStr (ascii ''USER_RECEIVABLES'')), P (JStr (ascii ''2''))]
        (Inr (ResultArray [ [(''id'', JNum (Finite 6))] ])),
      QueryCall INSERT_ledger_transaction_entry
        [P (JNum (Finite 10)), P (JNum (Finite 6)), P (JStr (ascii ''DEBIT'')),
         P (JStr (ascii ''100''))]
        (Inr (ResultArray []))]"

definition credit_resolve_call :: "string \<Rightarrow> jsval \<Rightarrow> call" where
  "credit_resolve_call income answered =
     QueryCall SELECT_ledger_account_id_2 [P (JNum (Finite 1)), P (JStr (ascii income))]
       (Inr (ResultArray [ [(''id'', answered)] ]))"

definition credit_insert_call :: call where
  "credit_insert_call =
     QueryCall INSERT_ledger_transaction_entry
       [P (JNum (Finite 10)), P (JNum (Finite 5)), P (JStr (ascii ''CREDIT'')),
        P (JStr (ascii ''100''))]
       (Inr (ResultArray []))"

definition good_payment_calls :: "call list" where
  "good_payment_calls =
     payment_row_call # debit_calls
       @ [credit_resolve_call ''SYSTEM_INCOME_PAID_PROJECTS'' (JNum (Finite 5)),
          credit_insert_call]"

definition bad_payment_calls :: "call list" where
  "bad_payment_calls =
     payment_row_call # debit_calls @ [credit_resolve_call ''SYSTEM_UNKNOWN'' JNull]"



definition fees_lookup_call :: call where
  "fees_lookup_call =
     QueryCall SELECT_ledger_account_type_BY_slug [P (JStr (ascii ''SYSTEM_FEES''))]
       (Inr (ResultArray []))"

definition fees_insert_call :: "jsval \<Rightarrow> call" where
  "fees_insert_call parent =
     QueryCall INSERT_ledger_account_type
       [P (JStr (ascii ''SYSTEM_FEES'')), P (JStr (ascii ''SYSTEM_FEES'')), P JNull,
        P (JStr (ascii ''CREDIT'')), P (JBool False), P parent]
       (Inr (ResultArray [ [(''id'', JNum (Finite 3))] ]))"

definition persisted_fees :: "jsval \<Rightarrow> PersistedLedgerAccountType" where
  "persisted_fees parent =
     \<lparr> at_description = JNull, at_id = JNum (Finite 3),
       at_isEntityLedgerAccount = JBool False, at_name = JStr (ascii ''SYSTEM_FEES''),
       at_normalBalance = JStr (ascii ''CREDIT''), at_parentLedgerAccountTypeId = parent,
       at_slug = JStr (ascii ''SYSTEM_FEES'') \<rparr>"



text \<open>
  One more storage, built on an entity manager that has no query runner and no
  \<^verbatim>\<open>release\<close>.
\<close>

definition bare_manager :: "script_pool PgQueryRunner conn" where
  "bare_manager =
     Conn (Some (PgQueryRunner_query (script_library (script seeded_types (Inr [])))))
       None None None None (\<lambda>this. JUndefined) None None"

definition manager_storage :: "script_pool PgQueryRunner TypeormLedgerStorage" where
  \<comment> \<open>the fields \<^verbatim>\<open>new TypeormLedgerStorage(manager, { manageTransaction: false })\<close> sets\<close>
  "manager_storage =
     \<lparr> this_manageTransaction = False, this_runner = bare_manager,
       this_manager = Some bare_manager \<rparr>"

section \<open>Account names and external ids\<close>

lemma rx_many_once:
  "rx_prefix True [Many q, Once p] s \<longleftrightarrow> (s \<noteq> [] \<and> list_all q (butlast s) \<and> p (last s))"
  by (induction s) auto

lemma valid_name_regex_shape:
  "rx_test_anchored (VALID_NAME_REGEX E) name \<longleftrightarrow> regex_name_shape E name"
proof (cases name)
  case Nil
  then show ?thesis
    by (simp add: rx_test_anchored_def VALID_NAME_REGEX_def regex_name_shape_def)
next
  case (Cons c s)
  then show ?thesis
    by (cases s)
       (auto simp: rx_test_anchored_def VALID_NAME_REGEX_def regex_name_shape_def rx_many_once
                   is_alnum_def)
qed

lemma rx_test_once: "rx_test [Once p] s \<longleftrightarrow> list_ex p s"
  by (induction s) auto

lemma dropWhile_all: "(\<forall>x\<in>set (dropWhile Q s). Q x) \<longleftrightarrow> (\<forall>x\<in>set s. Q x)"
  by (induction s) auto

lemma trim_empty: "trim s = [] \<longleftrightarrow> list_all is_space s"
  by (simp add: trim_def list_all_iff dropWhile_all)

lemma is_word_alnum: "is_word c \<Longrightarrow> is_alnum E c \<or> c = 95"
  by (auto simp: is_word_def is_alnum_def is_letter_def is_ascii_letter_def is_digit_def)

lemma shape_imp_rule:
  assumes "regex_name_shape E name"
  shows "spec_name_rule E name"
proof -
  from assms obtain c s where n: "name = c # s" and s: "s \<noteq> []"
    by (cases name; cases "tl name") (auto simp: regex_name_shape_def)
  then have parts: "name = c # butlast s @ [last s]" by simp
  from assms n s have "is_alnum E c" "is_alnum E (last s)" "list_all is_word (butlast s)"
    by (auto simp: regex_name_shape_def)
  then have "list_all (\<lambda>c. is_alnum E c \<or> c = 95 \<or> c = 45) (c # butlast s @ [last s])"
    using is_word_alnum[of _ E] by (auto simp: list_all_iff)
  with parts have "list_all (\<lambda>c. is_alnum E c \<or> c = 95 \<or> c = 45) name" by metis
  with assms n show ?thesis by (auto simp: spec_name_rule_def regex_name_shape_def)
qed

lemma validateName_cases:
  "validateName E name =
     (if name = [] then Inl AccountNameEmpty
      else if regex_name_shape E name then Inr () else Inl (AccountNameInvalid name))"
  by (simp add: validateName_def valid_name_regex_shape)

text \<open>
  C3. Every non-empty name made of letters, digits, underscores or hyphens that starts
  and ends with a letter or digit is to be accepted. The tests of the repository expect
  \<^verbatim>\<open>SYSTEM-CURRENT-ASSETS\<close> and \<^verbatim>\<open>USER-RECEIVABLES\<close> to be accepted. The code
  rejects both with the account-name-invalid error, whatever the letter table above
  ASCII and whatever the external id: \<^verbatim>\<open>\w\<close> has no hyphen.
\<close>

theorem C3_hyphenated_name_rejected:
  "spec_name_rule E (ascii ''SYSTEM-CURRENT-ASSETS'')
   \<and> validateName E (ascii ''SYSTEM-CURRENT-ASSETS'')
       = Inl (AccountNameInvalid (ascii ''SYSTEM-CURRENT-ASSETS''))
   \<and> new_SystemAccountRef E l (ascii ''SYSTEM-CURRENT-ASSETS'')
       = Inl (AccountNameInvalid (ascii ''SYSTEM-CURRENT-ASSETS''))
   \<and> spec_name_rule E (ascii ''USER-RECEIVABLES'')
   \<and> new_EntityAccountRef E l (ascii ''USER-RECEIVABLES'') x
       = Inl (AccountNameInvalid (ascii ''USER-RECEIVABLES''))"
  by (simp add: validateName_cases new_EntityAccountRef_def new_SystemAccountRef_def
        regex_name_shape_def spec_name_rule_def ascii_def is_alnum_def is_letter_def
        is_ascii_letter_def is_digit_def is_word_def)

text \<open>
  The same regular expression rejects two more kinds of name that the comment above it
  allows: a name of one letter, and a name with a letter outside ASCII between its ends.
\<close>

lemma short_and_accented_names_rejected:
  "spec_name_rule latin1_engine (ascii ''A'')
   \<and> validateName latin1_engine (ascii ''A'') = Inl (AccountNameInvalid (ascii ''A''))
   \<and> new_EntityAccountRef latin1_engine (ascii ''L'') (ascii ''A'') (IdNumber (Finite 1))
       = Inl (AccountNameInvalid (ascii ''A''))
   \<and> spec_name_rule latin1_engine [97, 233, 98]
   \<and> validateName latin1_engine [97, 233, 98] = Inl (AccountNameInvalid [97, 233, 98])"
  by (simp add: validateName_cases new_EntityAccountRef_def regex_name_shape_def
        spec_name_rule_def ascii_def is_alnum_def is_letter_def is_ascii_letter_def
        is_digit_def is_word_def latin1_engine_def)

text \<open>
  What the validation of a name does. The empty name fails with the account-name-empty
  error. Every non-empty name that violates the rule of the specification (a character
  other than a letter, a digit, an underscore or a hyphen, or an end that is not a
  letter or digit) fails with the account-name-invalid error, for both kinds of
  reference. Every name of at least two characters whose ends are letters or digits and
  whose inner characters are ASCII letters, digits or underscores is accepted:
  SystemAccountRef gives it back as accountSlug, and EntityAccountRef goes on to the
  external id. Every other non-empty name fails with the account-name-invalid error.
\<close>

lemma name_validation:
  "(name = [] \<longrightarrow> validateName E name = Inl AccountNameEmpty
       \<and> new_SystemAccountRef E l name = Inl AccountNameEmpty
       \<and> new_EntityAccountRef E l name x = Inl AccountNameEmpty)
   \<and> (name \<noteq> [] \<and> \<not> spec_name_rule E name \<longrightarrow>
         new_SystemAccountRef E l name = Inl (AccountNameInvalid name)
       \<and> new_EntityAccountRef E l name x = Inl (AccountNameInvalid name))
   \<and> (regex_name_shape E name \<longrightarrow>
         validateName E name = Inr ()
       \<and> new_SystemAccountRef E l name = Inr (SystemAccountRef l name)
       \<and> accountSlug (SystemAccountRef l name) = name
       \<and> (\<forall>y. normalizeExternalId x = Inr y \<longrightarrow>
            new_EntityAccountRef E l name x
              = Inr (EntityAccountRef l (name @ [58] @ externalId_String E y) name y)))
   \<and> (name \<noteq> [] \<and> \<not> regex_name_shape E name \<longrightarrow>
         new_SystemAccountRef E l name = Inl (AccountNameInvalid name)
       \<and> new_EntityAccountRef E l name x = Inl (AccountNameInvalid name))"
  using shape_imp_rule[of E name]
  by (auto simp: validateName_cases new_SystemAccountRef_def new_EntityAccountRef_def
                 regex_name_shape_def)

lemma name_validation_examples:
  "new_SystemAccountRef latin1_engine (ascii ''L'') [] = Inl AccountNameEmpty
   \<and> \<not> spec_name_rule latin1_engine (ascii ''NAME-'')
   \<and> new_EntityAccountRef latin1_engine (ascii ''L'') (ascii ''NAME-'') (IdNumber (Finite 1))
       = Inl (AccountNameInvalid (ascii ''NAME-''))
   \<and> regex_name_shape latin1_engine (ascii ''SYSTEM_CURRENT_ASSETS'')
   \<and> new_SystemAccountRef latin1_engine (ascii ''L'') (ascii ''SYSTEM_CURRENT_ASSETS'')
       = Inr (SystemAccountRef (ascii ''L'') (ascii ''SYSTEM_CURRENT_ASSETS''))
   \<and> normalizeExternalId (IdNumber (Finite 1)) = Inr (IdNumber (Finite 1))
   \<and> new_EntityAccountRef latin1_engine (ascii ''L'') (ascii ''SYSTEM_CURRENT_ASSETS'')
         (IdNumber (Finite 1))
       = Inr (EntityAccountRef (ascii ''L'') (ascii ''SYSTEM_CURRENT_ASSETS:1'')
               (ascii ''SYSTEM_CURRENT_ASSETS'') (IdNumber (Finite 1)))
   \<and> \<not> regex_name_shape latin1_engine (ascii ''{}'')
   \<and> new_SystemAccountRef latin1_engine (ascii ''L'') (ascii ''{}'')
       = Inl (AccountNameInvalid (ascii ''{}''))"
proof -
  have rule: "\<not> spec_name_rule latin1_engine (ascii ''NAME-'')"
    by (simp add: spec_name_rule_def ascii_def is_alnum_def is_letter_def
          is_ascii_letter_def is_digit_def)
  have shape: "regex_name_shape latin1_engine (ascii ''SYSTEM_CURRENT_ASSETS'')"
    by (simp add: regex_name_shape_def ascii_def is_alnum_def is_letter_def
          is_ascii_letter_def is_digit_def is_word_def)
  have noshape: "\<not> regex_name_shape latin1_engine (ascii ''{}'')"
    by (simp add: regex_name_shape_def ascii_def is_alnum_def is_letter_def
          is_ascii_letter_def is_digit_def)
  have one: "externalId_String latin1_engine (IdNumber (Finite 1)) = ascii ''1''"
    by (simp add: latin1_engine_def decimal.simps ascii_def)
  show ?thesis
    using rule shape noshape one
      name_validation[of "[]" latin1_engine "ascii ''L''" "IdNumber (Finite 1)"]
      name_validation[of "ascii ''NAME-''" latin1_engine "ascii ''L''" "IdNumber (Finite 1)"]
      name_validation[of "ascii ''SYSTEM_CURRENT_ASSETS''" latin1_engine "ascii ''L''"
                            "IdNumber (Finite 1)"]
      name_validation[of "ascii ''{}''" latin1_engine "ascii ''L''" "IdNumber (Finite 1)"]
    by (simp add: ascii_def)
qed

text \<open>
  C4. For every valid name, an external id that is a finite number, or a string that is
  not blank and holds neither whitespace nor a colon, is to give a reference whose
  accountSlug is the name, a colon and \<^verbatim>\<open>String(id)\<close>, and an external id
  that is a number that is not finite, a blank string, or a string with whitespace or a
  colon is to fail with the invalid-external-id error. The test
  \<^verbatim>\<open>create entity account with hyphenated name\<close> expects the slug of
  \<^verbatim>\<open>new EntityAccountRef(ledgerSlug, 'USER-RECEIVABLES', id)\<close> to start with
  \<^verbatim>\<open>USER-RECEIVABLES:\<close>. On the code that name, valid by the rule of the
  specification, never reaches the external id: with the finite number 1 and with the
  string \<^verbatim>\<open>u-42\<close> the constructor fails with the account-name-invalid error
  and gives no slug, and with the ids \<^verbatim>\<open>NaN\<close> and \<^verbatim>\<open>id:1\<close> it fails
  with that same error, not with the invalid-external-id error.
\<close>

theorem C4_hyphenated_name_gives_no_slug:
  "spec_name_rule E (ascii ''USER-RECEIVABLES'')
   \<and> isFinite (Finite 1)
   \<and> normalizeExternalId (IdNumber (Finite 1)) = Inr (IdNumber (Finite 1))
   \<and> new_EntityAccountRef E l (ascii ''USER-RECEIVABLES'') (IdNumber (Finite 1))
       = Inl (AccountNameInvalid (ascii ''USER-RECEIVABLES''))
   \<and> trim (ascii ''u-42'') \<noteq> []
   \<and> list_all (\<lambda>c. \<not> is_space c \<and> c \<noteq> 58) (ascii ''u-42'')
   \<and> normalizeExternalId (IdString (ascii ''u-42'')) = Inr (IdString (ascii ''u-42''))
   \<and> new_EntityAccountRef E l (ascii ''USER-RECEIVABLES'') (IdString (ascii ''u-42''))
       = Inl (AccountNameInvalid (ascii ''USER-RECEIVABLES''))
   \<and> normalizeExternalId (IdNumber NaN) = Inl InvalidExternalId
   \<and> new_EntityAccountRef E l (ascii ''USER-RECEIVABLES'') (IdNumber NaN)
       = Inl (AccountNameInvalid (ascii ''USER-RECEIVABLES''))
   \<and> normalizeExternalId (IdString (ascii ''id:1'')) = Inl InvalidExternalId
   \<and> new_EntityAccountRef E l (ascii ''USER-RECEIVABLES'') (IdString (ascii ''id:1''))
       = Inl (AccountNameInvalid (ascii ''USER-RECEIVABLES''))"
proof -
  have rule: "spec_name_rule E (ascii ''USER-RECEIVABLES'')"
    by (simp add: spec_name_rule_def ascii_def is_alnum_def is_letter_def
          is_ascii_letter_def is_digit_def)
  have name: "validateName E (ascii ''USER-RECEIVABLES'')
                = Inl (AccountNameInvalid (ascii ''USER-RECEIVABLES''))"
    by (simp add: validateName_cases regex_name_shape_def ascii_def is_alnum_def
          is_letter_def is_ascii_letter_def is_digit_def is_word_def)
  have ctor: "new_EntityAccountRef E l (ascii ''USER-RECEIVABLES'') x
                = Inl (AccountNameInvalid (ascii ''USER-RECEIVABLES''))" for x
    by (simp add: new_EntityAccountRef_def name)
  have good: "trim (ascii ''u-42'') \<noteq> []"
    "list_all (\<lambda>c. \<not> is_space c \<and> c \<noteq> 58) (ascii ''u-42'')"
    by (simp_all add: trim_def ascii_def is_space_def)
  have bad: "list_ex (\<lambda>c. c = 58 \<or> is_space c) (ascii ''id:1'')"
    by (simp add: ascii_def)
  have ids: "normalizeExternalId (IdString (ascii ''u-42'')) = Inr (IdString (ascii ''u-42''))"
    "normalizeExternalId (IdString (ascii ''id:1'')) = Inl InvalidExternalId"
    using good bad
    by (auto simp: rx_test_once EXTERNAL_ID_FORBIDDEN_def list_ex_iff list_all_iff)
  from rule ctor good ids show ?thesis by simp
qed

text \<open>
  What the constructor does with the external id once \<open>validateName\<close> has accepted
  the name: an external id that is a finite number, or
  a string that is not blank and holds neither whitespace nor a colon, gives a reference
  whose accountSlug is the name, a colon and \<^verbatim>\<open>String(id)\<close>, and whose externalId is
  the input; an external id that is a number that is not finite, a blank string, or a
  string with whitespace or a colon fails with the invalid-external-id error.
\<close>

lemma entity_external_id:
  assumes "validateName E name = Inr ()"
  shows "(isFinite n \<longrightarrow>
            new_EntityAccountRef E l name (IdNumber n)
              = Inr (EntityAccountRef l (name @ [58] @ externalId_String E (IdNumber n))
                      name (IdNumber n)))
       \<and> (trim s \<noteq> [] \<and> \<not> list_ex (\<lambda>c. is_space c \<or> c = 58) s \<longrightarrow>
            new_EntityAccountRef E l name (IdString s)
              = Inr (EntityAccountRef l (name @ [58] @ externalId_String E (IdString s))
                      name (IdString s)))
       \<and> (\<not> isFinite n \<longrightarrow> new_EntityAccountRef E l name (IdNumber n) = Inl InvalidExternalId)
       \<and> (trim s = [] \<or> list_ex (\<lambda>c. is_space c \<or> c = 58) s \<longrightarrow>
            new_EntityAccountRef E l name (IdString s) = Inl InvalidExternalId)"
  using assms
  by (auto simp: new_EntityAccountRef_def trim_empty rx_test_once EXTERNAL_ID_FORBIDDEN_def
                 list_ex_iff list_all_iff)

lemma entity_external_id_examples:
  "validateName latin1_engine (ascii ''USER_RECEIVABLES'') = Inr ()
   \<and> isFinite (Finite 1)
   \<and> new_EntityAccountRef latin1_engine (ascii ''L'') (ascii ''USER_RECEIVABLES'')
         (IdNumber (Finite 1))
       = Inr (EntityAccountRef (ascii ''L'') (ascii ''USER_RECEIVABLES:1'')
               (ascii ''USER_RECEIVABLES'') (IdNumber (Finite 1)))
   \<and> trim (ascii ''u-42'') \<noteq> [] \<and> \<not> list_ex (\<lambda>c. is_space c \<or> c = 58) (ascii ''u-42'')
   \<and> new_EntityAccountRef latin1_engine (ascii ''L'') (ascii ''USER_RECEIVABLES'')
         (IdString (ascii ''u-42''))
       = Inr (EntityAccountRef (ascii ''L'') (ascii ''USER_RECEIVABLES:u-42'')
               (ascii ''USER_RECEIVABLES'') (IdString (ascii ''u-42'')))
   \<and> \<not> isFinite NaN
   \<and> new_EntityAccountRef latin1_engine (ascii ''L'') (ascii ''USER_RECEIVABLES'') (IdNumber NaN)
       = Inl InvalidExternalId
   \<and> list_ex (\<lambda>c. is_space c \<or> c = 58) (ascii ''id:1'')
   \<and> new_EntityAccountRef latin1_engine (ascii ''L'') (ascii ''USER_RECEIVABLES'')
         (IdString (ascii ''id:1''))
       = Inl InvalidExternalId"
proof -
  have name: "validateName latin1_engine (ascii ''USER_RECEIVABLES'') = Inr ()"
    by (simp add: validateName_cases regex_name_shape_def ascii_def is_alnum_def
          is_letter_def is_ascii_letter_def is_digit_def is_word_def)
  have good: "trim (ascii ''u-42'') \<noteq> [] \<and> \<not> list_ex (\<lambda>c. is_space c \<or> c = 58) (ascii ''u-42'')"
    by (simp add: trim_def ascii_def is_space_def)
  have bad: "list_ex (\<lambda>c. is_space c \<or> c = 58) (ascii ''id:1'')"
    by (simp add: ascii_def)
  have one: "externalId_String latin1_engine (IdNumber (Finite 1)) = ascii ''1''"
    by (simp add: latin1_engine_def decimal.simps ascii_def)
  show ?thesis
    using name good bad one
      entity_external_id[OF name, of "Finite 1" "ascii ''L''" "ascii ''u-42''"]
      entity_external_id[OF name, of NaN "ascii ''L''" "ascii ''id:1''"]
    by (simp add: ascii_def)
qed

section \<open>The calls a method makes\<close>

lemma appendsI:
  "(\<And>w cs r w' cs'. m (w, cs) = (r, (w', cs')) \<Longrightarrow> \<exists>new. cs' = cs @ new \<and> list_all Q new)
     \<Longrightarrow> appends Q m"
  unfolding appends_def by blast

lemma appendsD:
  "appends Q m \<Longrightarrow> m (w, cs) = (r, (w', cs')) \<Longrightarrow> \<exists>new. cs' = cs @ new \<and> list_all Q new"
  unfolding appends_def by blast

lemma appends_return: "appends Q (io_return a)"
  by (rule appendsI) (simp add: io_return_def)

lemma appends_throw: "appends Q (io_throw e)"
  by (rule appendsI) (simp add: io_throw_def)

lemma appends_lift: "appends Q (io_lift x)"
  by (rule appendsI) (simp add: io_lift_def)

lemma appends_bind:
  assumes m: "appends Q m" and f: "\<And>a. appends Q (f a)"
  shows "appends Q (io_bind m f)"
proof (rule appendsI)
  fix w cs r w' cs'
  assume run: "io_bind m f (w, cs) = (r, (w', cs'))"
  obtain r1 w1 cs1 where m1: "m (w, cs) = (r1, (w1, cs1))"
    by (metis prod.exhaust)
  from appendsD[OF m m1] obtain n1 where n1: "cs1 = cs @ n1" "list_all Q n1" by blast
  show "\<exists>new. cs' = cs @ new \<and> list_all Q new"
  proof (cases r1)
    case (Inl e)
    with run m1 n1 show ?thesis by (auto simp: io_bind_def)
  next
    case (Inr a)
    with run m1 have "f a (w1, cs1) = (r, (w', cs'))" by (simp add: io_bind_def)
    from appendsD[OF f this] obtain n2 where "cs' = cs1 @ n2" "list_all Q n2" by blast
    with n1 show ?thesis by auto
  qed
qed

lemma appends_call_query:
  "(\<And>r. Q (QueryCall t ps r)) \<Longrightarrow> appends Q (call_query q t ps)"
  by (rule appendsI) (auto simp: call_query_def split: prod.splits sum.splits)

lemma appends_queryable_query:
  "(\<And>r. Q (QueryCall t ps r)) \<Longrightarrow> appends Q (queryable_query S t ps)"
  by (simp add: queryable_query_def appends_throw appends_call_query split: option.split)

lemma appends_execute:
  "(\<And>r. Q (QueryCall t ps r)) \<Longrightarrow> appends Q (execute S t ps)"
  unfolding execute_def by (intro appends_bind appends_queryable_query appends_return)

lemma appends_any_rows:
  "(\<And>r. Q (QueryCall t ps r)) \<Longrightarrow> appends Q (any_rows S t ps)"
  unfolding any_rows_def
  by (intro appends_bind appends_queryable_query)
     (auto simp: appends_return appends_throw split: qresult.split)

lemma appends_maybeOne:
  "(\<And>r. Q (QueryCall t ps r)) \<Longrightarrow> appends Q (maybeOne S t ps)"
  unfolding maybeOne_def
  by (intro appends_bind appends_any_rows) (auto simp: appends_return appends_throw)

lemma appends_one:
  "(\<And>r. Q (QueryCall t ps r)) \<Longrightarrow> appends Q (one S t ps)"
  unfolding one_def
  by (intro appends_bind appends_maybeOne)
     (auto simp: appends_return appends_throw split: option.split)

lemma appends_getLedgerIdBySlug:
  "(\<And>r. Q (QueryCall SELECT_ledger_BY_slug [P (JStr slug)] r))
     \<Longrightarrow> appends Q (getLedgerIdBySlug E S slug)"
  unfolding getLedgerIdBySlug_def
  by (intro appends_bind appends_maybeOne)
     (auto intro!: appends_bind appends_lift appends_return appends_throw split: option.split)

lemma appends_resolveLedgerAccountId:
  "(\<And>t ps r. t \<noteq> INSERT_ledger_transaction \<Longrightarrow> Q (QueryCall t ps r))
     \<Longrightarrow> appends Q (resolveLedgerAccountId E S ledgerId acc)"
  unfolding resolveLedgerAccountId_def
  by (cases acc)
     (auto intro!: appends_bind appends_maybeOne appends_return appends_throw simp: Let_def)

lemma appends_insertEntries:
  "(\<And>t ps r. t \<noteq> INSERT_ledger_transaction \<Longrightarrow> Q (QueryCall t ps r))
     \<Longrightarrow> appends Q (insertEntries E S ledgerId transactionId es)"
  by (induction es)
     (auto intro!: appends_bind appends_return appends_resolveLedgerAccountId appends_execute)

lemma appends_routine:
  assumes "\<And>t ps r. t \<noteq> INSERT_ledger_transaction \<Longrightarrow> Q (QueryCall t ps r)"
    and "\<And>iso r. toISOString postedAt = Inr iso \<Longrightarrow>
           Q (QueryCall INSERT_ledger_transaction
                [P (JNum ledgerId), iso, P (tx_description ledgerTransaction)] r)"
  shows "appends Q (insertTransaction_routine E S ledgerTransaction ledgerId postedAt)"
proof (cases "toISOString postedAt")
  case (Inl e)
  then have "insertTransaction_routine E S ledgerTransaction ledgerId postedAt = io_throw e"
    by (simp add: insertTransaction_routine_def io_bind_def io_lift_def io_throw_def)
  then show ?thesis by (simp add: appends_throw)
next
  case (Inr iso)
  then have "insertTransaction_routine E S ledgerTransaction ledgerId postedAt =
     io_bind (one S INSERT_ledger_transaction
                [P (JNum ledgerId), iso, P (tx_description ledgerTransaction)]) (\<lambda>row.
     io_bind (insertEntries E S ledgerId (field row ''id'')
                (flatEntries (transactionDoubleEntries ledgerTransaction))) (\<lambda>_.
       io_return \<lparr> pt_description = tx_description ledgerTransaction,
                   pt_id = field row ''id'',
                   pt_ledgerId = ledgerId,
                   pt_postedAt = postedAt \<rparr>))"
    by (simp add: insertTransaction_routine_def io_bind_def io_lift_def)
  then show ?thesis
    using assms Inr
    by (auto intro!: appends_bind appends_one appends_insertEntries appends_return)
qed

lemma appends_routine_queries:
  "appends is_query (insertTransaction_routine E S ledgerTransaction ledgerId postedAt)"
  by (rule appends_routine) simp_all

lemma call_method_run:
  "call_method c m (w, cs) =
     (case m w of (Inl x, w') \<Rightarrow> (Inl (Thrown x), (w', cs @ [c]))
                | (Inr v, w') \<Rightarrow> (Inr v, (w', cs @ [c])))"
  by (simp add: call_method_def)

lemma withTransaction_inline:
  assumes "\<not> this_manageTransaction S
           \<or> (\<exists>R. getTransactionRunner S = Some R \<and> truthy (tr_isTransactionActive R (fst s)))"
  shows "withTransaction S routine s = routine s"
  using assms by (auto simp: withTransaction_def)

lemma withTransaction_no_runner:
  assumes "this_manageTransaction S" "getTransactionRunner S = None"
  shows "withTransaction S routine s = (Inl ManageTransactionRequiresRunner, s)"
  using assms by (simp add: withTransaction_def io_throw_def)

lemma withTransaction_start_fails:
  assumes "this_manageTransaction S" "getTransactionRunner S = Some R"
    "\<not> truthy (tr_isTransactionActive R w)"
    "tr_startTransaction R w = (Inl x, w1)"
  shows "withTransaction S routine (w, cs) = (Inl (Thrown x), (w1, cs @ [StartTransactionCall]))"
  using assms by (simp add: withTransaction_def call_method_run)

lemma withTransaction_routine_fails:
  assumes "this_manageTransaction S" "getTransactionRunner S = Some R"
    "\<not> truthy (tr_isTransactionActive R w)"
    "tr_startTransaction R w = (Inr u, w1)"
    "routine (w1, cs @ [StartTransactionCall]) = (Inl e, (w3, cs3))"
  shows "withTransaction S routine (w, cs) =
           (case tr_rollbackTransaction R w3 of
              (Inl x, w4) \<Rightarrow> (Inl (Thrown x), (w4, cs3 @ [RollbackTransactionCall]))
            | (Inr v, w4) \<Rightarrow> (Inl e, (w4, cs3 @ [RollbackTransactionCall])))"
  using assms
  by (simp add: withTransaction_def call_method_run io_bind_def io_throw_def
           split: prod.splits sum.splits)

lemma withTransaction_routine_returns:
  assumes "this_manageTransaction S" "getTransactionRunner S = Some R"
    "\<not> truthy (tr_isTransactionActive R w)"
    "tr_startTransaction R w = (Inr u, w1)"
    "routine (w1, cs @ [StartTransactionCall]) = (Inr a, (w2, cs2))"
  shows "withTransaction S routine (w, cs) =
           (case tr_commitTransaction R w2 of
              (Inr v, w3) \<Rightarrow> (Inr a, (w3, cs2 @ [CommitTransactionCall]))
            | (Inl x, w3) \<Rightarrow>
                (case tr_rollbackTransaction R w3 of
                   (Inl y, w4) \<Rightarrow>
                     (Inl (Thrown y), (w4, cs2 @ [CommitTransactionCall, RollbackTransactionCall]))
                 | (Inr v, w4) \<Rightarrow>
                     (Inl (Thrown x), (w4, cs2 @ [CommitTransactionCall, RollbackTransactionCall]))))"
  using assms
  by (simp add: withTransaction_def call_method_run io_bind_def io_throw_def io_return_def
           split: prod.splits sum.splits)

lemma withTransaction_calls:
  assumes rt: "appends Q routine"
    and run: "withTransaction S routine (w, cs) = (r, (w', cs'))"
  shows "\<exists>new. cs' = cs @ new \<and>
     (if this_manageTransaction S
         \<and> (case getTransactionRunner S of
              None \<Rightarrow> False
            | Some R \<Rightarrow> \<not> truthy (tr_isTransactionActive R w))
      then \<exists>qs tail. new = StartTransactionCall # qs @ tail \<and> list_all Q qs
             \<and> tail \<in> {[], [CommitTransactionCall], [RollbackTransactionCall],
                          [CommitTransactionCall, RollbackTransactionCall]} \<and> ((\<exists>a. r = Inr a) \<longrightarrow> tail = [CommitTransactionCall])
      else list_all Q new)"
proof (cases "this_manageTransaction S
         \<and> (case getTransactionRunner S of
              None \<Rightarrow> False
            | Some R \<Rightarrow> \<not> truthy (tr_isTransactionActive R w))")
  case False
  then consider "\<not> this_manageTransaction S
           \<or> (\<exists>R. getTransactionRunner S = Some R \<and> truthy (tr_isTransactionActive R (fst (w, cs))))"
    | "this_manageTransaction S" "getTransactionRunner S = None"
    by (auto split: option.splits)
  then show ?thesis
  proof cases
    case 1
    from withTransaction_inline[OF 1, of routine] run
    have "routine (w, cs) = (r, (w', cs'))" by simp
    from appendsD[OF rt this] False show ?thesis by auto
  next
    case 2
    from withTransaction_no_runner[OF 2, of routine "(w, cs)"] run False
    show ?thesis by auto
  qed
next
  case True
  then obtain R where R: "this_manageTransaction S" "getTransactionRunner S = Some R"
      "\<not> truthy (tr_isTransactionActive R w)"
    by (auto split: option.splits)
  obtain r1 w1 where st: "tr_startTransaction R w = (r1, w1)" by (metis prod.exhaust)
  show ?thesis
  proof (cases r1)
    case (Inl x)
    with withTransaction_start_fails[OF R, of x w1 routine cs] st run
    have "cs' = cs @ StartTransactionCall # [] @ []" "r = Inl (Thrown x)" by auto
    with True show ?thesis
      by (auto intro!: exI[of _ "[]"])
  next
    case (Inr u)
    obtain r2 w2 cs2 where rt2: "routine (w1, cs @ [StartTransactionCall]) = (r2, (w2, cs2))"
      by (metis prod.exhaust)
    from appendsD[OF rt rt2] obtain qs
      where qs: "cs2 = (cs @ [StartTransactionCall]) @ qs" "list_all Q qs" by blast
    show ?thesis
    proof (cases r2)
      case (Inl e)
      with withTransaction_routine_fails[OF R, of u w1 routine cs e w2 cs2] st \<open>r1 = Inr u\<close> rt2 run
      have "cs' = cs2 @ [RollbackTransactionCall]" "\<exists>e'. r = Inl e'"
        by (auto split: prod.splits sum.splits)
      with qs have "cs' = cs @ StartTransactionCall # qs @ [RollbackTransactionCall]"
        by simp
      with True qs \<open>\<exists>e'. r = Inl e'\<close> show ?thesis
        by auto
    next
      case (Inr a)
      with withTransaction_routine_returns[OF R, of u w1 routine cs a w2 cs2] st
        \<open>r1 = Inr u\<close> rt2 run
      have "(cs' = cs2 @ [CommitTransactionCall] \<and> r = Inr a)
            \<or> (cs' = cs2 @ [CommitTransactionCall, RollbackTransactionCall] \<and> (\<exists>e'. r = Inl e'))"
        by (auto split: prod.splits sum.splits)
      with qs have "(cs' = cs @ StartTransactionCall # qs @ [CommitTransactionCall] \<and> r = Inr a)
            \<or> (cs' = cs @ StartTransactionCall # qs @ [CommitTransactionCall, RollbackTransactionCall]
                \<and> (\<exists>e'. r = Inl e'))"
        by simp
      with True qs show ?thesis
        by auto
    qed
  qed
qed

lemma insertTransaction_found:
  assumes "getLedgerIdBySlug E S (tx_ledgerSlug ledgerTransaction) s = (Inr ledger, s1)"
  shows "insertTransaction E clock S ledgerTransaction s =
           withTransaction S
             (insertTransaction_routine E S ledgerTransaction (pl_id ledger)
                (postedAt_at clock ledgerTransaction (fst s1))) s1"
  using assms
  by (simp add: insertTransaction_def io_bind_def io_return_def new_Date_def postedAt_at_def
           split: option.splits)

lemma insertTransaction_not_found:
  assumes "getLedgerIdBySlug E S (tx_ledgerSlug ledgerTransaction) s = (Inl e, s1)"
  shows "insertTransaction E clock S ledgerTransaction s = (Inl e, s1)"
  using assms by (simp add: insertTransaction_def io_bind_def)

section \<open>The runs of the examples\<close>

lemma seeded_runner:
  "getTransactionRunner (pg_storage answer True) = Some (pg_transactional answer)"
  by (simp add: pg_storage_def getTransactionRunner_def asTransactional_def
        PgQueryRunner_conn_def pg_transactional_def)

lemma seeded_query:
  "query (queryable (pg_storage answer manage))
     = Some (PgQueryRunner_query (script_library answer))"
  by (simp add: pg_storage_def queryable_def PgQueryRunner_conn_def)

lemma good_payment_owned:
  "insertTransaction latin1_engine runner_clock (seeded_storage True) good_payment
     (fresh_runner, [])
   = (Inr persisted_payment,
      (ended_runner 8,
       ledger_lookup_call # StartTransactionCall # good_payment_calls @ [CommitTransactionCall]))"
  by code_simp

lemma good_payment_inline:
  "insertTransaction latin1_engine runner_clock (seeded_storage False) good_payment
     (fresh_runner, [])
   = (Inr persisted_payment, (runner_at 6 False, ledger_lookup_call # good_payment_calls))"
  by code_simp

lemma good_payment_nested:
  "insertTransaction latin1_engine runner_clock (seeded_storage True) good_payment
     (runner_at 1 True, [])
   = (Inr persisted_payment, (runner_at 7 True, ledger_lookup_call # good_payment_calls))"
  by code_simp

lemma bad_payment_owned:
  "insertTransaction latin1_engine runner_clock (seeded_storage True) bad_payment
     (fresh_runner, [])
   = (Inl (AccountNotFound (ascii ''SYSTEM_UNKNOWN'')),
      (ended_runner 7,
       ledger_lookup_call # StartTransactionCall # bad_payment_calls
         @ [RollbackTransactionCall]))"
  by code_simp

section \<open>Posting a transaction\<close>

lemma queryable_query_run:
  assumes "query (queryable S) = Some q"
  shows "queryable_query S t ps (w, cs) =
           (case q t ps w of
              (Inl x, w') \<Rightarrow> (Inl (Thrown x), (w', cs @ [QueryCall t ps (Inl x)]))
            | (Inr v, w') \<Rightarrow> (Inr v, (w', cs @ [QueryCall t ps (Inr v)])))"
  using assms by (simp add: queryable_query_def call_query_def)

lemma maybeOne_answered:
  assumes "query (queryable S) = Some q" "q t ps w = (Inr v, w1)"
  shows "maybeOne S t ps (w, cs) =
           ((case rows_of v of
               None \<Rightarrow> Inl UnexpectedQueryResultShape
             | Some [] \<Rightarrow> Inr None
             | Some [r] \<Rightarrow> Inr (Some r)
             | Some (r # r' # rs) \<Rightarrow> Inl ExpectedAtMostOneRow),
            (w1, cs @ [QueryCall t ps (Inr v)]))"
  using assms
  by (cases v)
     (auto simp: maybeOne_def any_rows_def queryable_query_run io_bind_def io_return_def
                 io_throw_def split: list.splits)

text \<open>
  C7. When the query for the ledger answers with no row, \<open>insertTransaction\<close> fails
  with the ledger-not-found error, and that query is the only call it has made: no
  insert and no start of a transaction.
\<close>

theorem C7_ledger_not_found:
  assumes "query (queryable S) = Some q"
    and "q SELECT_ledger_BY_slug [P (JStr (tx_ledgerSlug ledgerTransaction))] w = (Inr v, w1)"
    and "rows_of v = Some []"
  shows "insertTransaction E clock S ledgerTransaction (w, cs) =
           (Inl (LedgerNotFound (tx_ledgerSlug ledgerTransaction)),
            (w1, cs @ [QueryCall SELECT_ledger_BY_slug
                         [P (JStr (tx_ledgerSlug ledgerTransaction))] (Inr v)]))"
proof -
  have "getLedgerIdBySlug E S (tx_ledgerSlug ledgerTransaction) (w, cs) =
          (Inl (LedgerNotFound (tx_ledgerSlug ledgerTransaction)),
           (w1, cs @ [QueryCall SELECT_ledger_BY_slug
                        [P (JStr (tx_ledgerSlug ledgerTransaction))] (Inr v)]))"
    using assms(3)
    by (simp add: getLedgerIdBySlug_def io_bind_def io_throw_def
          maybeOne_answered[OF assms(1,2)])
  then show ?thesis by (rule insertTransaction_not_found)
qed

theorem C7_ledger_not_found_witness:
  "query (queryable (seeded_storage True))
     = Some (PgQueryRunner_query (script_library (script seeded_types (Inr []))))
   \<and> PgQueryRunner_query (script_library (script seeded_types (Inr [])))
       SELECT_ledger_BY_slug
       [P (JStr (tx_ledgerSlug (good_payment\<lparr>tx_ledgerSlug := ascii ''NO_SUCH_LEDGER''\<rparr>)))]
       fresh_runner
     = (Inr (ResultArray []), runner_at 1 False)
   \<and> rows_of (ResultArray []) = Some []
   \<and> insertTransaction latin1_engine runner_clock (seeded_storage True)
       (good_payment\<lparr>tx_ledgerSlug := ascii ''NO_SUCH_LEDGER''\<rparr>) (fresh_runner, [])
     = (Inl (LedgerNotFound (ascii ''NO_SUCH_LEDGER'')),
        (runner_at 1 False,
         [QueryCall SELECT_ledger_BY_slug [P (JStr (ascii ''NO_SUCH_LEDGER''))]
            (Inr (ResultArray []))]))"
proof -
  have q: "query (queryable (seeded_storage True))
     = Some (PgQueryRunner_query (script_library (script seeded_types (Inr []))))"
    by (simp add: seeded_storage_def seeded_query)
  have a: "PgQueryRunner_query (script_library (script seeded_types (Inr [])))
       SELECT_ledger_BY_slug
       [P (JStr (tx_ledgerSlug (good_payment\<lparr>tx_ledgerSlug := ascii ''NO_SUCH_LEDGER''\<rparr>)))]
       fresh_runner
     = (Inr (ResultArray []), runner_at 1 False)"
    by code_simp
  have r: "rows_of (ResultArray []) = Some []" by simp
  from C7_ledger_not_found[OF q a r, of latin1_engine runner_clock "[]"] q a
  show ?thesis by simp
qed

text \<open>
  C2. Whatever \<open>insertTransaction\<close> returns, the calls it has made are these. When the
  call does not own the transaction boundary (the storage does not manage transactions,
  or its runner reports a transaction active, or the ledger was not found), they are
  queries only: no start, commit or rollback. When it owns the boundary, they are the
  ledger query, one start, the queries of the write steps, and then nothing more, one
  commit, one rollback, or a failed commit and its rollback; on success it is exactly
  one commit.
\<close>

theorem C2_transaction_boundary:
  assumes "insertTransaction E clock S ledgerTransaction (w, cs) = (r, (w', cs'))"
  shows "\<exists>new. cs' = cs @ new
     \<and> (\<not> owns_boundary E S ledgerTransaction (w, cs) \<longrightarrow> list_all is_query new)
     \<and> (owns_boundary E S ledgerTransaction (w, cs) \<longrightarrow>
          (\<exists>q0 qs tail. new = q0 @ [StartTransactionCall] @ qs @ tail
             \<and> list_all is_query q0 \<and> list_all is_query qs
             \<and> tail \<in> {[], [CommitTransactionCall], [RollbackTransactionCall],
                        [CommitTransactionCall, RollbackTransactionCall]}
             \<and> ((\<exists>p. r = Inr p) \<longrightarrow> tail = [CommitTransactionCall])))"
proof -
  obtain rl w1 cs1
    where lookup: "getLedgerIdBySlug E S (tx_ledgerSlug ledgerTransaction) (w, cs)
                     = (rl, (w1, cs1))"
    by (metis prod.exhaust)
  have "appends is_query (getLedgerIdBySlug E S (tx_ledgerSlug ledgerTransaction))"
    by (rule appends_getLedgerIdBySlug) simp
  from appendsD[OF this lookup] obtain q0
    where q0: "cs1 = cs @ q0" "list_all is_query q0" by blast
  show ?thesis
  proof (cases rl)
    case (Inl e)
    with lookup have "insertTransaction E clock S ledgerTransaction (w, cs) = (Inl e, (w1, cs1))"
      by (simp add: insertTransaction_not_found)
    moreover from Inl lookup have "\<not> owns_boundary E S ledgerTransaction (w, cs)"
      by (simp add: owns_boundary_def)
    ultimately show ?thesis using assms q0 by auto
  next
    case (Inr ledger)
    let ?routine = "insertTransaction_routine E S ledgerTransaction (pl_id ledger)
                      (postedAt_at clock ledgerTransaction w1)"
    from Inr lookup assms
    have run: "withTransaction S ?routine (w1, cs1) = (r, (w', cs'))"
      by (simp add: insertTransaction_found[of E S ledgerTransaction "(w, cs)" ledger "(w1, cs1)"])
    have own: "owns_boundary E S ledgerTransaction (w, cs) \<longleftrightarrow>
               (this_manageTransaction S
                \<and> (case getTransactionRunner S of
                     None \<Rightarrow> False
                   | Some R \<Rightarrow> \<not> truthy (tr_isTransactionActive R w1)))"
      using Inr lookup by (simp add: owns_boundary_def split: option.splits)
    from withTransaction_calls[OF appends_routine_queries run]
    obtain new where new: "cs' = cs1 @ new"
      and shape: "if owns_boundary E S ledgerTransaction (w, cs)
          then \<exists>qs tail. new = StartTransactionCall # qs @ tail \<and> list_all is_query qs
             \<and> tail \<in> {[], [CommitTransactionCall], [RollbackTransactionCall],
                          [CommitTransactionCall, RollbackTransactionCall]}
             \<and> ((\<exists>a. r = Inr a) \<longrightarrow> tail = [CommitTransactionCall])
          else list_all is_query new"
      unfolding own by blast
    show ?thesis
    proof (cases "owns_boundary E S ledgerTransaction (w, cs)")
      case False
      with shape new q0 show ?thesis by auto
    next
      case True
      with shape obtain qs tail
        where t: "new = StartTransactionCall # qs @ tail" "list_all is_query qs"
          "tail \<in> {[], [CommitTransactionCall], [RollbackTransactionCall],
                    [CommitTransactionCall, RollbackTransactionCall]}"
          "(\<exists>a. r = Inr a) \<longrightarrow> tail = [CommitTransactionCall]"
        by auto
      from new q0 t(1) have "cs' = cs @ (q0 @ [StartTransactionCall] @ qs @ tail)" by simp
      with True q0 t show ?thesis by blast
    qed
  qed
qed

theorem C2_transaction_boundary_witness:
  "owns_boundary latin1_engine (seeded_storage True) good_payment (fresh_runner, [])
   \<and> insertTransaction latin1_engine runner_clock (seeded_storage True) good_payment
        (fresh_runner, [])
      = (Inr persisted_payment,
         (ended_runner 8,
          ledger_lookup_call # StartTransactionCall # good_payment_calls
            @ [CommitTransactionCall]))
   \<and> (\<exists>q0 qs. ledger_lookup_call # StartTransactionCall # good_payment_calls
                  @ [CommitTransactionCall]
                = q0 @ [StartTransactionCall] @ qs @ [CommitTransactionCall]
                \<and> list_all is_query q0 \<and> list_all is_query qs)
   \<and> \<not> owns_boundary latin1_engine (seeded_storage False) good_payment (fresh_runner, [])
   \<and> insertTransaction latin1_engine runner_clock (seeded_storage False) good_payment
        (fresh_runner, [])
      = (Inr persisted_payment, (runner_at 6 False, ledger_lookup_call # good_payment_calls))
   \<and> list_all is_query (ledger_lookup_call # good_payment_calls)
   \<and> \<not> owns_boundary latin1_engine (seeded_storage True) good_payment (runner_at 1 True, [])
   \<and> insertTransaction latin1_engine runner_clock (seeded_storage True) good_payment
        (runner_at 1 True, [])
      = (Inr persisted_payment, (runner_at 7 True, ledger_lookup_call # good_payment_calls))"
proof -
  have own: "owns_boundary latin1_engine (seeded_storage True) good_payment (fresh_runner, [])"
    by code_simp
  have inline: "\<not> owns_boundary latin1_engine (seeded_storage False) good_payment
                    (fresh_runner, [])"
    by code_simp
  have nested: "\<not> owns_boundary latin1_engine (seeded_storage True) good_payment
                    (runner_at 1 True, [])"
    by code_simp
  from C2_transaction_boundary[OF good_payment_owned] own
  have a: "\<exists>q0 qs. ledger_lookup_call # StartTransactionCall # good_payment_calls
                  @ [CommitTransactionCall]
                = q0 @ [StartTransactionCall] @ qs @ [CommitTransactionCall]
                \<and> list_all is_query q0 \<and> list_all is_query qs"
    by auto
  from C2_transaction_boundary[OF good_payment_inline] inline
  have b: "list_all is_query (ledger_lookup_call # good_payment_calls)"
    by auto
  from own inline nested a b good_payment_owned good_payment_inline good_payment_nested
  show ?thesis by blast
qed

text \<open>
  C1, as stated, fails on the code: the storage owns the boundary, resolving the second
  entry fails with the account-not-found error, the rollback is called and fails, and the
  failure of the rollback is raised in place of the original one.
\<close>

theorem C1_counterexample:
  "owns_boundary latin1_engine (pg_storage (script seeded_types (Inl 9)) True) bad_payment
     (fresh_runner, [])
   \<and> insertTransaction_routine latin1_engine (pg_storage (script seeded_types (Inl 9)) True)
       bad_payment (Finite 1) (ValidDate 0)
       (runner_at 2 True, [ledger_lookup_call, StartTransactionCall])
     = (Inl (AccountNotFound (ascii ''SYSTEM_UNKNOWN'')),
        (runner_at 6 True, ledger_lookup_call # StartTransactionCall # bad_payment_calls))
   \<and> insertTransaction latin1_engine runner_clock
       (pg_storage (script seeded_types (Inl 9)) True) bad_payment (fresh_runner, [])
     = (Inl (Thrown 9),
        (runner_at 7 True,
         ledger_lookup_call # StartTransactionCall # bad_payment_calls
           @ [RollbackTransactionCall]))"
  by code_simp

text \<open>
  C1, amended. Let the ledger be found. When the storage owns the boundary, the start
  returns and the write steps fail, \<open>rollbackTransaction\<close> is called once, right after
  the failing step; when the rollback returns, the original failure is raised unmodified,
  and when the rollback fails, its failure is raised instead. When the storage does not
  manage transactions, or its runner reports a transaction active, a failure of the write
  steps is raised unmodified and the calls made are queries only: no rollback.
\<close>

theorem C1_failure_in_write_steps:
  assumes "getLedgerIdBySlug E S (tx_ledgerSlug ledgerTransaction) s = (Inr ledger, (w1, cs1))"
  shows "(this_manageTransaction S \<and> getTransactionRunner S = Some R
          \<and> \<not> truthy (tr_isTransactionActive R w1)
          \<and> tr_startTransaction R w1 = (Inr u, w2)
          \<and> insertTransaction_routine E S ledgerTransaction (pl_id ledger)
               (postedAt_at clock ledgerTransaction w1) (w2, cs1 @ [StartTransactionCall])
             = (Inl e, (w3, cs3))
          \<longrightarrow> insertTransaction E clock S ledgerTransaction s =
                (case tr_rollbackTransaction R w3 of
                   (Inl x, w4) \<Rightarrow> (Inl (Thrown x), (w4, cs3 @ [RollbackTransactionCall]))
                 | (Inr v, w4) \<Rightarrow> (Inl e, (w4, cs3 @ [RollbackTransactionCall]))))
       \<and> ((\<not> this_manageTransaction S
            \<or> (\<exists>R'. getTransactionRunner S = Some R' \<and> truthy (tr_isTransactionActive R' w1)))
          \<and> insertTransaction_routine E S ledgerTransaction (pl_id ledger)
               (postedAt_at clock ledgerTransaction w1) (w1, cs1)
             = (Inl e', (w3', cs3'))
          \<longrightarrow> insertTransaction E clock S ledgerTransaction s = (Inl e', (w3', cs3'))
              \<and> (\<exists>qs. cs3' = cs1 @ qs \<and> list_all is_query qs))"
proof (intro conjI impI)
  let ?routine = "insertTransaction_routine E S ledgerTransaction (pl_id ledger)
                    (postedAt_at clock ledgerTransaction w1)"
  have found: "insertTransaction E clock S ledgerTransaction s
                 = withTransaction S ?routine (w1, cs1)"
    using insertTransaction_found[OF assms] by simp
  {
    assume h: "this_manageTransaction S \<and> getTransactionRunner S = Some R
          \<and> \<not> truthy (tr_isTransactionActive R w1)
          \<and> tr_startTransaction R w1 = (Inr u, w2)
          \<and> ?routine (w2, cs1 @ [StartTransactionCall]) = (Inl e, (w3, cs3))"
    then show "insertTransaction E clock S ledgerTransaction s =
                (case tr_rollbackTransaction R w3 of
                   (Inl x, w4) \<Rightarrow> (Inl (Thrown x), (w4, cs3 @ [RollbackTransactionCall]))
                 | (Inr v, w4) \<Rightarrow> (Inl e, (w4, cs3 @ [RollbackTransactionCall])))"
      using withTransaction_routine_fails[of S R w1 u w2 ?routine cs1 e w3 cs3] found
      by simp
  }
  {
    assume h: "(\<not> this_manageTransaction S
            \<or> (\<exists>R'. getTransactionRunner S = Some R' \<and> truthy (tr_isTransactionActive R' w1)))
          \<and> ?routine (w1, cs1) = (Inl e', (w3', cs3'))"
    then have "withTransaction S ?routine (w1, cs1) = ?routine (w1, cs1)"
      using withTransaction_inline[of S "(w1, cs1)" ?routine] by simp
    with h found show "insertTransaction E clock S ledgerTransaction s = (Inl e', (w3', cs3'))"
      by simp
    from h appendsD[OF appends_routine_queries, of E S ledgerTransaction "pl_id ledger"
                       "postedAt_at clock ledgerTransaction w1" w1 cs1 "Inl e'" w3' cs3']
    show "\<exists>qs. cs3' = cs1 @ qs \<and> list_all is_query qs" by simp
  }
qed

theorem C1_failure_in_write_steps_witness:
  "getLedgerIdBySlug latin1_engine (seeded_storage True) (tx_ledgerSlug bad_payment)
     (fresh_runner, [])
     = (Inr seeded_ledger, (runner_at 1 False, [ledger_lookup_call]))
   \<and> this_manageTransaction (seeded_storage True)
   \<and> getTransactionRunner (seeded_storage True)
       = Some (pg_transactional (script seeded_types (Inr [])))
   \<and> \<not> truthy (tr_isTransactionActive (pg_transactional (script seeded_types (Inr [])))
                 (runner_at 1 False))
   \<and> tr_startTransaction (pg_transactional (script seeded_types (Inr []))) (runner_at 1 False)
       = (Inr (), runner_at 2 True)
   \<and> insertTransaction_routine latin1_engine (seeded_storage True) bad_payment
       (pl_id seeded_ledger) (postedAt_at runner_clock bad_payment (runner_at 1 False))
       (runner_at 2 True, [ledger_lookup_call] @ [StartTransactionCall])
     = (Inl (AccountNotFound (ascii ''SYSTEM_UNKNOWN'')),
        (runner_at 6 True, ledger_lookup_call # StartTransactionCall # bad_payment_calls))
   \<and> insertTransaction latin1_engine runner_clock (seeded_storage True) bad_payment
       (fresh_runner, [])
     = (Inl (AccountNotFound (ascii ''SYSTEM_UNKNOWN'')),
        (ended_runner 7,
         (ledger_lookup_call # StartTransactionCall # bad_payment_calls)
           @ [RollbackTransactionCall]))
   \<and> getLedgerIdBySlug latin1_engine (seeded_storage False) (tx_ledgerSlug bad_payment)
       (fresh_runner, [])
     = (Inr seeded_ledger, (runner_at 1 False, [ledger_lookup_call]))
   \<and> \<not> this_manageTransaction (seeded_storage False)
   \<and> insertTransaction_routine latin1_engine (seeded_storage False) bad_payment
       (pl_id seeded_ledger) (postedAt_at runner_clock bad_payment (runner_at 1 False))
       (runner_at 1 False, [ledger_lookup_call])
     = (Inl (AccountNotFound (ascii ''SYSTEM_UNKNOWN'')),
        (runner_at 5 False, ledger_lookup_call # bad_payment_calls))
   \<and> insertTransaction latin1_engine runner_clock (seeded_storage False) bad_payment
       (fresh_runner, [])
     = (Inl (AccountNotFound (ascii ''SYSTEM_UNKNOWN'')),
        (runner_at 5 False, ledger_lookup_call # bad_payment_calls))
   \<and> (\<exists>qs. ledger_lookup_call # bad_payment_calls = [ledger_lookup_call] @ qs
             \<and> list_all is_query qs)"
proof -
  have l1: "getLedgerIdBySlug latin1_engine (seeded_storage True) (tx_ledgerSlug bad_payment)
     (fresh_runner, [])
     = (Inr seeded_ledger, (runner_at 1 False, [ledger_lookup_call]))"
    by code_simp
  have m1: "this_manageTransaction (seeded_storage True)"
    by (simp add: seeded_storage_def pg_storage_def)
  have r1: "getTransactionRunner (seeded_storage True)
       = Some (pg_transactional (script seeded_types (Inr [])))"
    by (simp add: seeded_storage_def seeded_runner)
  have a1: "\<not> truthy (tr_isTransactionActive (pg_transactional (script seeded_types (Inr [])))
                 (runner_at 1 False))"
    by (simp add: pg_transactional_def runner_at_def)
  have s1: "tr_startTransaction (pg_transactional (script seeded_types (Inr [])))
              (runner_at 1 False) = (Inr (), runner_at 2 True)"
    by code_simp
  have f1: "insertTransaction_routine latin1_engine (seeded_storage True) bad_payment
       (pl_id seeded_ledger) (postedAt_at runner_clock bad_payment (runner_at 1 False))
       (runner_at 2 True, [ledger_lookup_call] @ [StartTransactionCall])
     = (Inl (AccountNotFound (ascii ''SYSTEM_UNKNOWN'')),
        (runner_at 6 True, ledger_lookup_call # StartTransactionCall # bad_payment_calls))"
    by code_simp
  have rb: "tr_rollbackTransaction (pg_transactional (script seeded_types (Inr [])))
              (runner_at 6 True) = (Inr (), ended_runner 7)"
    by code_simp
  have l2: "getLedgerIdBySlug latin1_engine (seeded_storage False) (tx_ledgerSlug bad_payment)
       (fresh_runner, [])
     = (Inr seeded_ledger, (runner_at 1 False, [ledger_lookup_call]))"
    by code_simp
  have m2: "\<not> this_manageTransaction (seeded_storage False)"
    by (simp add: seeded_storage_def pg_storage_def)
  have f2: "insertTransaction_routine latin1_engine (seeded_storage False) bad_payment
       (pl_id seeded_ledger) (postedAt_at runner_clock bad_payment (runner_at 1 False))
       (runner_at 1 False, [ledger_lookup_call])
     = (Inl (AccountNotFound (ascii ''SYSTEM_UNKNOWN'')),
        (runner_at 5 False, ledger_lookup_call # bad_payment_calls))"
    by code_simp
  have owned: "insertTransaction latin1_engine runner_clock (seeded_storage True) bad_payment
       (fresh_runner, [])
     = (Inl (AccountNotFound (ascii ''SYSTEM_UNKNOWN'')),
        (ended_runner 7,
         (ledger_lookup_call # StartTransactionCall # bad_payment_calls)
           @ [RollbackTransactionCall]))"
    using C1_failure_in_write_steps[OF l1, THEN conjunct1, rule_format,
            of "pg_transactional (script seeded_types (Inr []))" "()" "runner_at 2 True"
               runner_clock "AccountNotFound (ascii ''SYSTEM_UNKNOWN'')" "runner_at 6 True"
               "ledger_lookup_call # StartTransactionCall # bad_payment_calls"]
          m1 r1 a1 s1 f1 rb
    by simp
  have inline: "insertTransaction latin1_engine runner_clock (seeded_storage False) bad_payment
       (fresh_runner, [])
     = (Inl (AccountNotFound (ascii ''SYSTEM_UNKNOWN'')),
        (runner_at 5 False, ledger_lookup_call # bad_payment_calls))
     \<and> (\<exists>qs. ledger_lookup_call # bad_payment_calls = [ledger_lookup_call] @ qs
             \<and> list_all is_query qs)"
    using C1_failure_in_write_steps[OF l2, THEN conjunct2, rule_format,
            of runner_clock "AccountNotFound (ascii ''SYSTEM_UNKNOWN'')" "runner_at 5 False"
               "ledger_lookup_call # bad_payment_calls"]
          m2 f2
    by simp
  from l1 m1 r1 a1 s1 f1 l2 m2 f2 owned inline show ?thesis by blast
qed

section \<open>The order of the inserts\<close>

lemma queryable_query_returns:
  assumes "queryable_query S t ps (w, cs) = (Inr v, (w', cs'))"
  shows "cs' = cs @ [QueryCall t ps (Inr v)]"
  using assms
  by (auto simp: queryable_query_def call_query_def io_throw_def
           split: option.splits prod.splits sum.splits)

lemma maybeOne_returns:
  assumes "maybeOne S t ps (w, cs) = (Inr ro, (w', cs'))"
  shows "\<exists>v. cs' = cs @ [QueryCall t ps (Inr v)] \<and> only_row v = ro"
proof -
  obtain r1 w1 cs1 where q: "queryable_query S t ps (w, cs) = (r1, (w1, cs1))"
    by (metis prod.exhaust)
  show ?thesis
  proof (cases r1)
    case (Inl e)
    with q assms show ?thesis
      by (simp add: maybeOne_def any_rows_def io_bind_def)
  next
    case (Inr v)
    with q have cs1: "cs1 = cs @ [QueryCall t ps (Inr v)]"
      by (simp add: queryable_query_returns)
    from q Inr assms have "cs' = cs1 \<and> only_row v = ro"
      by (cases v)
         (auto simp: maybeOne_def any_rows_def io_bind_def io_return_def io_throw_def
                     only_row_def
               split: if_splits list.splits)
    with cs1 show ?thesis by blast
  qed
qed

lemma one_returns:
  assumes "one S t ps (w, cs) = (Inr row, (w', cs'))"
  shows "\<exists>v. cs' = cs @ [QueryCall t ps (Inr v)] \<and> only_row v = Some row"
proof -
  obtain r1 w1 cs1 where m: "maybeOne S t ps (w, cs) = (r1, (w1, cs1))"
    by (metis prod.exhaust)
  with assms have "r1 = Inr (Some row) \<and> cs1 = cs'"
    by (auto simp: one_def io_bind_def io_return_def io_throw_def
             split: sum.splits option.splits)
  with m maybeOne_returns[of S t ps w cs "Some row" w1 cs1] show ?thesis by auto
qed

lemma execute_returns:
  assumes "execute S t ps (w, cs) = (Inr u, (w', cs'))"
  shows "\<exists>v. cs' = cs @ [QueryCall t ps (Inr v)]"
proof -
  obtain r1 w1 cs1 where q: "queryable_query S t ps (w, cs) = (r1, (w1, cs1))"
    by (metis prod.exhaust)
  with assms obtain v where "r1 = Inr v" "cs1 = cs'"
    by (auto simp: execute_def io_bind_def io_return_def split: sum.splits)
  with q queryable_query_returns[of S t ps w cs v w1 cs1] show ?thesis by auto
qed

lemma resolveLedgerAccountId_returns:
  assumes "resolveLedgerAccountId E S ledgerId acc (w, cs) = (Inr resolved, (w', cs'))"
  shows "\<exists>t ps v. resolve_request E ledgerId acc = Some (t, ps)
           \<and> cs' = cs @ [QueryCall t ps (Inr v)] \<and> resolved = answered_id v
           \<and> truthy resolved"
proof (cases acc)
  case (SystemAccountRef l slug)
  let ?ps = "[P (JNum ledgerId), P (JStr slug)]"
  obtain r1 w1 cs1 where m: "maybeOne S SELECT_ledger_account_id_2 ?ps (w, cs) = (r1, (w1, cs1))"
    by (metis prod.exhaust)
  with assms SystemAccountRef obtain ro
    where ro: "r1 = Inr ro" "cs1 = cs'"
      "resolved = (case ro of None \<Rightarrow> JUndefined | Some row \<Rightarrow> field row ''id'')"
      "truthy resolved"
    by (auto simp: resolveLedgerAccountId_def io_bind_def io_return_def io_throw_def Let_def
             split: sum.splits if_splits)
  from m ro maybeOne_returns[of S SELECT_ledger_account_id_2 ?ps w cs ro w1 cs1]
  obtain v where "cs' = cs @ [QueryCall SELECT_ledger_account_id_2 ?ps (Inr v)]"
      "only_row v = ro"
    by auto
  with ro SystemAccountRef show ?thesis by (auto simp: answered_id_def)
next
  case (EntityAccountRef l slug name externalId)
  let ?ps = "[P (JNum ledgerId), P (JStr name), P (JStr (externalId_String E externalId))]"
  obtain r1 w1 cs1 where m: "maybeOne S SELECT_ledger_account_id_3 ?ps (w, cs) = (r1, (w1, cs1))"
    by (metis prod.exhaust)
  with assms EntityAccountRef obtain ro
    where ro: "r1 = Inr ro" "cs1 = cs'"
      "resolved = (case ro of None \<Rightarrow> JUndefined | Some row \<Rightarrow> field row ''id'')"
      "truthy resolved"
    by (auto simp: resolveLedgerAccountId_def io_bind_def io_return_def io_throw_def Let_def
             split: sum.splits if_splits)
  from m ro maybeOne_returns[of S SELECT_ledger_account_id_3 ?ps w cs ro w1 cs1]
  obtain v where "cs' = cs @ [QueryCall SELECT_ledger_account_id_3 ?ps (Inr v)]"
      "only_row v = ro"
    by auto
  with ro EntityAccountRef show ?thesis by (auto simp: answered_id_def)
next
  case (OtherAccountRef l slug)
  with assms show ?thesis by (simp add: resolveLedgerAccountId_def io_throw_def)
qed

lemma insertEntries_returns:
  assumes "insertEntries E S ledgerId transactionId es (w, cs) = (Inr u, (w', cs'))"
  shows "\<exists>answers. length answers = length es
           \<and> cs' = cs @ entry_calls E ledgerId transactionId es answers
           \<and> list_all (\<lambda>e. resolve_request E ledgerId (account e) \<noteq> None) es
           \<and> list_all (\<lambda>a. truthy (answered_id (fst a))) answers"
  using assms
proof (induction es arbitrary: w cs)
  case Nil
  then show ?case by (simp add: io_return_def)
next
  case (Cons e es)
  let ?ps = "\<lambda>resolved. [P transactionId, P resolved, P (debitCredit_val (action e)),
                          P (JStr (toFullPrecision (amount e)))]"
  obtain r1 w1 cs1
    where res: "resolveLedgerAccountId E S ledgerId (account e) (w, cs) = (r1, (w1, cs1))"
    by (metis prod.exhaust)
  with Cons.prems obtain resolved where r1: "r1 = Inr resolved"
    by (cases r1) (auto simp: io_bind_def)
  from resolveLedgerAccountId_returns[OF res[unfolded r1]]
  obtain t ps v where req: "resolve_request E ledgerId (account e) = Some (t, ps)"
      and cs1: "cs1 = cs @ [QueryCall t ps (Inr v)]"
      and rv: "resolved = answered_id v" "truthy resolved"
    by blast
  obtain r2 w2 cs2
    where ex: "execute S INSERT_ledger_transaction_entry (?ps resolved) (w1, cs1)
                 = (r2, (w2, cs2))"
    by (metis prod.exhaust)
  with Cons.prems res r1 obtain u2 where r2: "r2 = Inr u2"
    by (cases r2) (auto simp: io_bind_def)
  from execute_returns[OF ex[unfolded r2]]
  obtain v' where cs2: "cs2 = cs1 @ [QueryCall INSERT_ledger_transaction_entry (?ps resolved)
                                      (Inr v')]"
    by blast
  from Cons.prems res r1 ex r2
  have rest: "insertEntries E S ledgerId transactionId es (w2, cs2) = (Inr u, (w', cs'))"
    by (simp add: io_bind_def)
  from Cons.IH[OF rest] obtain answers
    where a: "length answers = length es"
      "cs' = cs2 @ entry_calls E ledgerId transactionId es answers"
      "list_all (\<lambda>e. resolve_request E ledgerId (account e) \<noteq> None) es"
      "list_all (\<lambda>a. truthy (answered_id (fst a))) answers"
    by blast
  have "length ((v, v') # answers) = length (e # es)
        \<and> cs' = cs @ entry_calls E ledgerId transactionId (e # es) ((v, v') # answers)
        \<and> list_all (\<lambda>e. resolve_request E ledgerId (account e) \<noteq> None) (e # es)
        \<and> list_all (\<lambda>a. truthy (answered_id (fst a))) ((v, v') # answers)"
    using a req cs1 cs2 rv by simp
  then show ?case by blast
qed

lemma insertTransaction_routine_returns:
  assumes "insertTransaction_routine E S ledgerTransaction ledgerId postedAt (w, cs)
             = (Inr p, (w', cs'))"
  shows "\<exists>t v answers.
           postedAt = ValidDate t
         \<and> cs' = cs @ QueryCall INSERT_ledger_transaction
                        [P (JNum ledgerId), P_ISODate t, P (tx_description ledgerTransaction)]
                        (Inr v)
                    # entry_calls E ledgerId (answered_id v)
                        (flatEntries (transactionDoubleEntries ledgerTransaction)) answers
         \<and> length answers = length (flatEntries (transactionDoubleEntries ledgerTransaction))
         \<and> list_all (\<lambda>e. resolve_request E ledgerId (account e) \<noteq> None)
              (flatEntries (transactionDoubleEntries ledgerTransaction))
         \<and> list_all (\<lambda>a. truthy (answered_id (fst a))) answers
         \<and> p = \<lparr> pt_description = tx_description ledgerTransaction, pt_id = answered_id v,
                 pt_ledgerId = ledgerId, pt_postedAt = postedAt \<rparr>"
proof (cases postedAt)
  case InvalidDate
  with assms show ?thesis
    by (simp add: insertTransaction_routine_def io_bind_def io_lift_def)
next
  case (ValidDate t)
  let ?ps = "[P (JNum ledgerId), P_ISODate t, P (tx_description ledgerTransaction)]"
  let ?es = "flatEntries (transactionDoubleEntries ledgerTransaction)"
  obtain r1 w1 cs1 where o: "one S INSERT_ledger_transaction ?ps (w, cs) = (r1, (w1, cs1))"
    by (metis prod.exhaust)
  with assms ValidDate obtain row where r1: "r1 = Inr row"
    by (cases r1) (auto simp: insertTransaction_routine_def io_bind_def io_lift_def)
  from one_returns[OF o[unfolded r1]]
  obtain v where v: "cs1 = cs @ [QueryCall INSERT_ledger_transaction ?ps (Inr v)]"
      "only_row v = Some row"
    by blast
  then have rid: "field row ''id'' = answered_id v" by (simp add: answered_id_def)
  obtain r2 w2 cs2
    where ie: "insertEntries E S ledgerId (field row ''id'') ?es (w1, cs1) = (r2, (w2, cs2))"
    by (metis prod.exhaust)
  with assms ValidDate o r1 obtain u where r2: "r2 = Inr u"
    by (cases r2) (auto simp: insertTransaction_routine_def io_bind_def io_lift_def)
  from assms ValidDate o r1 ie r2
  have fin: "cs' = cs2"
      "p = \<lparr> pt_description = tx_description ledgerTransaction, pt_id = field row ''id'',
             pt_ledgerId = ledgerId, pt_postedAt = postedAt \<rparr>"
    by (auto simp: insertTransaction_routine_def io_bind_def io_lift_def io_return_def)
  from insertEntries_returns[OF ie[unfolded r2]] obtain answers
    where a: "length answers = length ?es"
      "cs2 = cs1 @ entry_calls E ledgerId (field row ''id'') ?es answers"
      "list_all (\<lambda>e. resolve_request E ledgerId (account e) \<noteq> None) ?es"
      "list_all (\<lambda>a. truthy (answered_id (fst a))) answers"
    by blast
  from ValidDate v a fin rid show ?thesis by auto
qed

lemma getLedgerIdBySlug_returns:
  assumes "getLedgerIdBySlug E S slug (w, cs) = (Inr ledger, (w', cs'))"
  shows "\<exists>v. cs' = cs @ [QueryCall SELECT_ledger_BY_slug [P (JStr slug)] (Inr v)]
           \<and> answered_id v = JNum (pl_id ledger)"
proof -
  obtain r1 w1 cs1
    where m: "maybeOne S SELECT_ledger_BY_slug [P (JStr slug)] (w, cs) = (r1, (w1, cs1))"
    by (metis prod.exhaust)
  with assms obtain row where r1: "r1 = Inr (Some row)" and cs1: "cs1 = cs'"
      and rid: "toDatabaseId (field row ''id'') = Inr (pl_id ledger)"
    by (auto simp: getLedgerIdBySlug_def io_bind_def io_throw_def io_lift_def io_return_def
             split: sum.splits option.splits)
  from rid have "field row ''id'' = JNum (pl_id ledger)"
    by (auto simp: toDatabaseId_def split: jsval.splits)
  with maybeOne_returns[OF m[unfolded r1]] cs1 show ?thesis
    by (auto simp: answered_id_def)
qed

lemma withTransaction_returns:
  assumes "withTransaction S routine (w, cs) = (Inr a, (w', cs'))"
  shows "routine (w, cs) = (Inr a, (w', cs'))
       \<or> (\<exists>w1 w2 cs2. routine (w1, cs @ [StartTransactionCall]) = (Inr a, (w2, cs2))
             \<and> cs' = cs2 @ [CommitTransactionCall])"
proof (cases "this_manageTransaction S")
  case False
  with assms show ?thesis by (simp add: withTransaction_def)
next
  case True
  show ?thesis
  proof (cases "getTransactionRunner S")
    case None
    with True assms show ?thesis by (simp add: withTransaction_def io_throw_def)
  next
    case (Some R)
    show ?thesis
    proof (cases "truthy (tr_isTransactionActive R w)")
      case True
      with \<open>this_manageTransaction S\<close> Some assms show ?thesis
        by (simp add: withTransaction_def)
    next
      case False
      obtain r1 w1 where st: "tr_startTransaction R w = (r1, w1)" by (metis prod.exhaust)
      obtain r2 w2 cs2 where rt: "routine (w1, cs @ [StartTransactionCall]) = (r2, (w2, cs2))"
        by (metis prod.exhaust)
      from assms True Some False st rt
      have "r2 = Inr a \<and> cs' = cs2 @ [CommitTransactionCall]"
        by (auto simp: withTransaction_def call_method_run io_bind_def io_throw_def
                       io_return_def
                 split: sum.splits prod.splits)
      with rt show ?thesis by blast
    qed
  qed
qed

text \<open>
  C8. When \<open>insertTransaction\<close> returns, its calls are: the query for the ledger; the
  start of a transaction or nothing; the insert of the transaction row; then for each
  entry of the flattened sequence, in its order, the query that resolves the account of
  the entry and the insert of the entry row, which carries the id the transaction row
  was given, the id that query answered, the action and the full-precision amount of
  the entry; then the commit exactly when a transaction was started.
\<close>

theorem C8_insert_order:
  assumes "insertTransaction E clock S ledgerTransaction (w, cs) = (Inr p, (w', cs'))"
  shows "\<exists>v0 v1 t answers pre post.
           cs' = cs @ [QueryCall SELECT_ledger_BY_slug
                         [P (JStr (tx_ledgerSlug ledgerTransaction))] (Inr v0)]
                    @ pre
                    @ [QueryCall INSERT_ledger_transaction
                         [P (JNum (pt_ledgerId p)), P_ISODate t,
                          P (tx_description ledgerTransaction)] (Inr v1)]
                    @ entry_calls E (pt_ledgerId p) (pt_id p)
                        (flatEntries (transactionDoubleEntries ledgerTransaction)) answers
                    @ post
         \<and> length answers = length (flatEntries (transactionDoubleEntries ledgerTransaction))
         \<and> list_all (\<lambda>e. resolve_request E (pt_ledgerId p) (account e) \<noteq> None)
              (flatEntries (transactionDoubleEntries ledgerTransaction))
         \<and> list_all (\<lambda>a. truthy (answered_id (fst a))) answers
         \<and> ((pre = [] \<and> post = [])
              \<or> (pre = [StartTransactionCall] \<and> post = [CommitTransactionCall]))
         \<and> answered_id v0 = JNum (pt_ledgerId p)
         \<and> answered_id v1 = pt_id p
         \<and> pt_postedAt p = ValidDate t"
proof -
  let ?es = "flatEntries (transactionDoubleEntries ledgerTransaction)"
  obtain rl w1 cs1
    where lookup: "getLedgerIdBySlug E S (tx_ledgerSlug ledgerTransaction) (w, cs)
                     = (rl, (w1, cs1))"
    by (metis prod.exhaust)
  with assms obtain ledger where rl: "rl = Inr ledger"
    by (cases rl) (auto simp: insertTransaction_not_found)
  from getLedgerIdBySlug_returns[OF lookup[unfolded rl]]
  obtain v0 where v0: "cs1 = cs @ [QueryCall SELECT_ledger_BY_slug
                                     [P (JStr (tx_ledgerSlug ledgerTransaction))] (Inr v0)]"
      "answered_id v0 = JNum (pl_id ledger)"
    by blast
  let ?routine = "insertTransaction_routine E S ledgerTransaction (pl_id ledger)
                    (postedAt_at clock ledgerTransaction w1)"
  from assms lookup rl
  have "withTransaction S ?routine (w1, cs1) = (Inr p, (w', cs'))"
    by (simp add: insertTransaction_found[of E S ledgerTransaction "(w, cs)" ledger "(w1, cs1)"])
  from withTransaction_returns[OF this]
  obtain pre post wa wb csb
    where run: "?routine (wa, cs1 @ pre) = (Inr p, (wb, csb))" "cs' = csb @ post"
      and pp: "(pre = [] \<and> post = [])
               \<or> (pre = [StartTransactionCall] \<and> post = [CommitTransactionCall])"
    by (metis append_Nil2)
  from insertTransaction_routine_returns[OF run(1)]
  obtain t v1 answers
    where r: "postedAt_at clock ledgerTransaction w1 = ValidDate t"
      "csb = (cs1 @ pre) @ QueryCall INSERT_ledger_transaction
                        [P (JNum (pl_id ledger)), P_ISODate t,
                         P (tx_description ledgerTransaction)] (Inr v1)
                    # entry_calls E (pl_id ledger) (answered_id v1) ?es answers"
      "length answers = length ?es"
      "list_all (\<lambda>e. resolve_request E (pl_id ledger) (account e) \<noteq> None) ?es"
      "list_all (\<lambda>a. truthy (answered_id (fst a))) answers"
      "p = \<lparr> pt_description = tx_description ledgerTransaction, pt_id = answered_id v1,
             pt_ledgerId = pl_id ledger,
             pt_postedAt = postedAt_at clock ledgerTransaction w1 \<rparr>"
    by blast
  from r(6) have p: "pt_ledgerId p = pl_id ledger" "pt_id p = answered_id v1"
      "pt_postedAt p = postedAt_at clock ledgerTransaction w1"
    by simp_all
  have "cs' = cs @ [QueryCall SELECT_ledger_BY_slug
                         [P (JStr (tx_ledgerSlug ledgerTransaction))] (Inr v0)]
                    @ pre
                    @ [QueryCall INSERT_ledger_transaction
                         [P (JNum (pt_ledgerId p)), P_ISODate t,
                          P (tx_description ledgerTransaction)] (Inr v1)]
                    @ entry_calls E (pt_ledgerId p) (pt_id p) ?es answers
                    @ post"
    using run(2) r(2) v0(1) p by simp
  with r(1,3,4,5) p pp v0(2) show ?thesis by force
qed

theorem C8_insert_order_witness:
  "insertTransaction latin1_engine runner_clock (seeded_storage True) good_payment
     (fresh_runner, [])
   = (Inr persisted_payment,
      (ended_runner 8,
       ledger_lookup_call # StartTransactionCall # good_payment_calls @ [CommitTransactionCall]))
   \<and> (\<exists>v0 v1 t answers pre post.
         ledger_lookup_call # StartTransactionCall # good_payment_calls @ [CommitTransactionCall]
           = [] @ [QueryCall SELECT_ledger_BY_slug
                         [P (JStr (tx_ledgerSlug good_payment))] (Inr v0)]
                    @ pre
                    @ [QueryCall INSERT_ledger_transaction
                         [P (JNum (pt_ledgerId persisted_payment)), P_ISODate t,
                          P (tx_description good_payment)] (Inr v1)]
                    @ entry_calls latin1_engine (pt_ledgerId persisted_payment)
                        (pt_id persisted_payment)
                        (flatEntries (transactionDoubleEntries good_payment)) answers
                    @ post
         \<and> length answers = length (flatEntries (transactionDoubleEntries good_payment))
         \<and> list_all (\<lambda>e. resolve_request latin1_engine (pt_ledgerId persisted_payment)
                            (account e) \<noteq> None)
              (flatEntries (transactionDoubleEntries good_payment))
         \<and> list_all (\<lambda>a. truthy (answered_id (fst a))) answers
         \<and> ((pre = [] \<and> post = [])
              \<or> (pre = [StartTransactionCall] \<and> post = [CommitTransactionCall]))
         \<and> answered_id v0 = JNum (pt_ledgerId persisted_payment)
         \<and> answered_id v1 = pt_id persisted_payment
         \<and> pt_postedAt persisted_payment = ValidDate t)"
  by (rule conjI[OF good_payment_owned C8_insert_order[OF good_payment_owned]])

section \<open>The posting timestamp\<close>

lemma appends_withTransaction:
  assumes "appends Q routine" "Q StartTransactionCall" "Q CommitTransactionCall"
    "Q RollbackTransactionCall"
  shows "appends Q (withTransaction S routine)"
proof (rule appendsI)
  fix w cs r w' cs'
  assume "withTransaction S routine (w, cs) = (r, (w', cs'))"
  from withTransaction_calls[OF assms(1) this] assms(2-4)
  show "\<exists>new. cs' = cs @ new \<and> list_all Q new"
    by (auto split: if_splits)
qed

lemma io_bind_return: "io_bind (io_return a) f = f a"
  by (simp add: io_bind_def io_return_def)

lemma appends_insertTransaction:
  assumes posted: "tx_postedAt ledgerTransaction = Some (ValidDate t)"
    and other: "\<And>q ps r. q \<noteq> INSERT_ledger_transaction \<Longrightarrow> Q (QueryCall q ps r)"
    and row: "\<And>a d r. Q (QueryCall INSERT_ledger_transaction [a, P_ISODate t, d] r)"
    and boundary: "Q StartTransactionCall" "Q CommitTransactionCall" "Q RollbackTransactionCall"
  shows "appends Q (insertTransaction E clock S ledgerTransaction)"
  unfolding insertTransaction_def posted option.case io_bind_return
proof (intro appends_bind appends_getLedgerIdBySlug appends_withTransaction appends_routine)
qed (auto simp: other row boundary)

text \<open>
  C5. Let a transaction be built with no posting timestamp given, in a world whose clock
  reads \<open>clock w0\<close>. Whenever it is posted, and whatever the clock reads then: every
  insert of a transaction row that \<open>insertTransaction\<close> issues carries the ISO string of
  \<open>clock w0\<close> as its posting timestamp, and when \<open>insertTransaction\<close> returns, it has
  issued that insert and the transaction it returns has \<open>postedAt = clock w0\<close>.
\<close>

theorem C5_posting_timestamp:
  assumes built: "new_Transaction clock slug entries description None w0 = Inr ledgerTransaction"
    and run: "insertTransaction E clock S ledgerTransaction (w, cs) = (r, (w', cs'))"
  shows "\<exists>new. cs' = cs @ new
     \<and> list_all (\<lambda>c. is_insert_transaction c
                       \<longrightarrow> posted_at_of c = Some (P_ISODate (clock w0))) new
     \<and> (\<forall>p. r = Inr p \<longrightarrow>
           pt_postedAt p = ValidDate (clock w0) \<and> list_ex is_insert_transaction new)"
proof -
  from built have posted: "tx_postedAt ledgerTransaction = Some (ValidDate (clock w0))"
    by (auto simp: new_Transaction_def split: if_splits)
  let ?Q = "\<lambda>c. is_insert_transaction c \<longrightarrow> posted_at_of c = Some (P_ISODate (clock w0))"
  have "appends ?Q (insertTransaction E clock S ledgerTransaction)"
    by (rule appends_insertTransaction[OF posted])
       (simp_all add: is_insert_transaction_def posted_at_of_def)
  from appendsD[OF this run] obtain new
    where new: "cs' = cs @ new" "list_all ?Q new" by blast
  have "pt_postedAt p = ValidDate (clock w0) \<and> list_ex is_insert_transaction new"
    if ok: "r = Inr p" for p
  proof -
    obtain rl w1 cs1
      where lookup: "getLedgerIdBySlug E S (tx_ledgerSlug ledgerTransaction) (w, cs)
                       = (rl, (w1, cs1))"
      by (metis prod.exhaust)
    with run ok obtain ledger where rl: "rl = Inr ledger"
      by (cases rl) (auto simp: insertTransaction_not_found)
    have "appends (\<lambda>c. True) (getLedgerIdBySlug E S (tx_ledgerSlug ledgerTransaction))"
      by (rule appends_getLedgerIdBySlug) simp
    from appendsD[OF this lookup] obtain q0 where q0: "cs1 = cs @ q0" by blast
    let ?routine = "insertTransaction_routine E S ledgerTransaction (pl_id ledger)
                      (postedAt_at clock ledgerTransaction w1)"
    from run ok lookup rl
    have "withTransaction S ?routine (w1, cs1) = (Inr p, (w', cs'))"
      by (simp add: insertTransaction_found[of E S ledgerTransaction "(w, cs)" ledger
                      "(w1, cs1)"])
    from withTransaction_returns[OF this]
    obtain pre post wa wb csb
      where rt: "?routine (wa, cs1 @ pre) = (Inr p, (wb, csb))" "cs' = csb @ post"
      by (metis append_Nil2)
    from insertTransaction_routine_returns[OF rt(1)]
    obtain t v answers
      where "csb = (cs1 @ pre) @ QueryCall INSERT_ledger_transaction
                        [P (JNum (pl_id ledger)), P_ISODate t,
                         P (tx_description ledgerTransaction)] (Inr v)
                    # entry_calls E (pl_id ledger) (answered_id v)
                        (flatEntries (transactionDoubleEntries ledgerTransaction)) answers"
        and p: "pt_postedAt p = postedAt_at clock ledgerTransaction w1"
      by force
    with rt(2) q0 new(1)
    have "QueryCall INSERT_ledger_transaction
            [P (JNum (pl_id ledger)), P_ISODate t, P (tx_description ledgerTransaction)]
            (Inr v) \<in> set new"
      by auto
    moreover have "is_insert_transaction (QueryCall INSERT_ledger_transaction
            [P (JNum (pl_id ledger)), P_ISODate t, P (tx_description ledgerTransaction)]
            (Inr v))"
      by (simp add: is_insert_transaction_def)
    ultimately have "list_ex is_insert_transaction new"
      unfolding list_ex_iff by blast
    with p posted show ?thesis by (simp add: postedAt_at_def)
  qed
  with new show ?thesis by blast
qed

theorem C5_posting_timestamp_witness:
  "new_Transaction runner_clock (ascii ''TYPEORM_LEDGER'')
     (payment_entries ''SYSTEM_INCOME_PAID_PROJECTS'')
     (JStr (ascii ''User receivable collected'')) None fresh_runner
   = Inr good_payment
   \<and> runner_clock fresh_runner = 0
   \<and> runner_clock (runner_at 1 True) = 1
   \<and> insertTransaction latin1_engine runner_clock (seeded_storage True) good_payment
       (runner_at 1 True, [])
     = (Inr persisted_payment, (runner_at 7 True, ledger_lookup_call # good_payment_calls))
   \<and> pt_postedAt persisted_payment = ValidDate (runner_clock fresh_runner)
   \<and> list_ex is_insert_transaction (ledger_lookup_call # good_payment_calls)
   \<and> posted_at_of payment_row_call = Some (P_ISODate (runner_clock fresh_runner))"
proof -
  have built: "new_Transaction runner_clock (ascii ''TYPEORM_LEDGER'')
     (payment_entries ''SYSTEM_INCOME_PAID_PROJECTS'')
     (JStr (ascii ''User receivable collected'')) None fresh_runner
   = Inr good_payment"
    by code_simp
  have clocks: "runner_clock fresh_runner = 0" "runner_clock (runner_at 1 True) = 1"
    by (simp_all add: runner_clock_def fresh_runner_def runner_at_def)
  have row: "is_insert_transaction payment_row_call"
    by (simp add: is_insert_transaction_def payment_row_call_def)
  from C5_posting_timestamp[OF built good_payment_nested]
  have "list_all (\<lambda>c. is_insert_transaction c
                       \<longrightarrow> posted_at_of c = Some (P_ISODate (runner_clock fresh_runner)))
          (ledger_lookup_call # good_payment_calls)
        \<and> pt_postedAt persisted_payment = ValidDate (runner_clock fresh_runner)
        \<and> list_ex is_insert_transaction (ledger_lookup_call # good_payment_calls)"
    by auto
  with row have "posted_at_of payment_row_call = Some (P_ISODate (runner_clock fresh_runner))
        \<and> pt_postedAt persisted_payment = ValidDate (runner_clock fresh_runner)
        \<and> list_ex is_insert_transaction (ledger_lookup_call # good_payment_calls)"
    by (simp add: good_payment_calls_def)
  with built clocks good_payment_nested show ?thesis by blast
qed

section \<open>Building the storage, and releasing it\<close>

lemma constructor_on_runner:
  "new_TypeormLedgerStorage (PgQueryRunner_conn (script_library answer)) None
     = Inr (pg_storage answer True)"
  "new_TypeormLedgerStorage (PgQueryRunner_conn (script_library answer)) (Some manage)
     = Inr (pg_storage answer manage)"
  by (simp_all add: new_TypeormLedgerStorage_def isEntityManagerLike_def PgQueryRunner_conn_def
        pg_storage_def getTransactionRunner_def asTransactional_def Let_def)

lemma constructor_on_manager:
  "new_TypeormLedgerStorage bare_manager (Some False) = Inr manager_storage"
  "new_TypeormLedgerStorage bare_manager None = Inl ManageTransactionRequiresRunner"
  by (simp_all add: new_TypeormLedgerStorage_def isEntityManagerLike_def bare_manager_def
        manager_storage_def getTransactionRunner_def asTransactional_def Let_def)

lemma constructor_manages_with_runner:
  assumes "new_TypeormLedgerStorage runnerOrManager options_manageTransaction = Inr S"
    and "this_manageTransaction S"
  shows "getTransactionRunner S \<noteq> None"
  using assms
  by (auto simp: new_TypeormLedgerStorage_def Let_def split: if_splits)

text \<open>
  What \<open>release\<close> of the storage does: it calls the \<open>release\<close> of its runner when
  the runner has one, and otherwise the \<open>release\<close> of the query runner of its manager
  when there is one, and returns or raises what that call does. It keeps no record of an
  earlier release. When neither has a \<open>release\<close>, it does nothing and returns.
\<close>

lemma storage_release_delegates:
  "(release (this_runner S) = Some rel \<longrightarrow>
      storage_release S (w, cs) =
        (case rel w of
           (Inl x, w') \<Rightarrow> (Inl (Thrown x), (w', cs @ [ReleaseCall]))
         | (Inr v, w') \<Rightarrow> (Inr v, (w', cs @ [ReleaseCall]))))
   \<and> (release (this_runner S) = None \<and> this_manager S = Some m \<and> queryRunner m = Some qr
        \<and> release qr = Some rel' \<longrightarrow>
      storage_release S (w, cs) =
        (case rel' w of
           (Inl x, w') \<Rightarrow> (Inl (Thrown x), (w', cs @ [ReleaseCall]))
         | (Inr v, w') \<Rightarrow> (Inr v, (w', cs @ [ReleaseCall]))))
   \<and> (release (this_runner S) = None
        \<and> (case this_manager S of
              None \<Rightarrow> True
            | Some m' \<Rightarrow>
                (case queryRunner m' of None \<Rightarrow> True | Some qr' \<Rightarrow> release qr' = None))
        \<longrightarrow> storage_release S (w, cs) = (Inr (), (w, cs)))"
  by (auto simp: storage_release_def call_method_run io_return_def split: option.splits)

lemma storage_release_on_manager:
  "storage_release manager_storage (runner_at 3 False, cs) = (Inr (), (runner_at 3 False, cs))"
  by (simp add: storage_release_def manager_storage_def bare_manager_def io_return_def)

text \<open>
  The release of PgQueryRunner gives back the client when one is held, and then, and
  also when none is held, ends the pool: nothing in it looks whether the pool has
  already been ended.
\<close>

lemma PgQueryRunner_release_ends_pool:
  "pg_client this = None \<Longrightarrow> PgQueryRunner_release L this = on_pool (pool_end L) this"
  "pg_client this = Some c \<Longrightarrow> client_release L c (pg_pool this) = (Inr (), d) \<Longrightarrow>
     PgQueryRunner_release L this
       = on_pool (pool_end L) (this\<lparr>pg_pool := d, pg_client := None\<rparr>)"
  "pg_client this = Some c \<Longrightarrow> client_release L c (pg_pool this) = (Inl x, d) \<Longrightarrow>
     PgQueryRunner_release L this = (Inl x, this\<lparr>pg_pool := d\<rparr>)"
  by (simp_all add: PgQueryRunner_release_def act_bind_def on_pool_def)

text \<open>
  C9. A second call of \<open>release\<close> on a storage, after the resources have been
  released, is to do nothing and not to fail. Both integration tests end with
  \<^verbatim>\<open>await storage.release()\<close> on a storage whose runner has already been released,
  by \<^verbatim>\<open>runner.rollbackTransaction()\<close> in the first and by the commit of
  \<open>insertTransaction\<close> in the second. On the code, on the runner of those tests and a
  pool that refuses a second \<^verbatim>\<open>end()\<close>: the first \<open>release\<close> of the storage
  returns and ends the pool; a second one calls the release of the runner again and
  fails; and so does the \<open>release\<close> that follows the rollback of the first test and
  the one that follows the commit of the second test.
\<close>

theorem C9_second_release_fails:
  "storage_release (seeded_storage True) (fresh_runner, [])
     = (Inr (), (ended_runner 0, [ReleaseCall]))
   \<and> storage_release (seeded_storage True) (ended_runner 0, [ReleaseCall])
     = (Inl (Thrown 2), (ended_runner 0, [ReleaseCall, ReleaseCall]))
   \<and> insertTransaction latin1_engine runner_clock (seeded_storage True) good_payment
       (runner_at 1 True, [])
     = (Inr persisted_payment, (runner_at 7 True, ledger_lookup_call # good_payment_calls))
   \<and> PgQueryRunner_rollbackTransaction (script_library (script seeded_types (Inr [])))
       (runner_at 7 True)
     = (Inr (), ended_runner 8)
   \<and> storage_release (seeded_storage True)
       (ended_runner 8, ledger_lookup_call # good_payment_calls)
     = (Inl (Thrown 2), (ended_runner 8, ledger_lookup_call # good_payment_calls @ [ReleaseCall]))
   \<and> insertTransaction latin1_engine runner_clock (seeded_storage True) good_payment
       (fresh_runner, [])
     = (Inr persisted_payment,
        (ended_runner 8,
         ledger_lookup_call # StartTransactionCall # good_payment_calls @ [CommitTransactionCall]))
   \<and> storage_release (seeded_storage True)
       (ended_runner 8,
        ledger_lookup_call # StartTransactionCall # good_payment_calls @ [CommitTransactionCall])
     = (Inl (Thrown 2),
        (ended_runner 8,
         ledger_lookup_call # StartTransactionCall # good_payment_calls
           @ [CommitTransactionCall, ReleaseCall]))"
proof -
  have first: "storage_release (seeded_storage True) (fresh_runner, [])
                 = (Inr (), (ended_runner 0, [ReleaseCall]))"
    by code_simp
  have again: "storage_release (seeded_storage True) (ended_runner n, cs)
                 = (Inl (Thrown 2), (ended_runner n, cs @ [ReleaseCall]))" for n cs
    by (simp add: storage_release_def seeded_storage_def pg_storage_def PgQueryRunner_conn_def
          call_method_run PgQueryRunner_release_def on_pool_def script_library_def
          ended_runner_def)
  have rollback: "PgQueryRunner_rollbackTransaction
                    (script_library (script seeded_types (Inr []))) (runner_at 7 True)
                  = (Inr (), ended_runner 8)"
    by code_simp
  from first again[of 0 "[ReleaseCall]"] again[of 8] rollback good_payment_nested
    good_payment_owned
  show ?thesis by simp
qed

section \<open>Inserting an account type\<close>



lemma insertAccountType_passes:
  assumes "findAccountTypeBySlug S (in_slug i) s = (Inr existing, s1)"
    and "case existing of None \<Rightarrow> True | Some a \<Rightarrow> truthy (at_isEntityLedgerAccount a)"
  shows "insertAccountType S i s =
     io_bind
       (case in_parentLedgerAccountTypeId i of
          None \<Rightarrow> io_return ()
        | Some parentId \<Rightarrow>
            if \<not> truthy (JNum parentId) then io_return ()
            else
              io_bind (getSavedAccountTypeById S parentId) (\<lambda>parentAccount.
                if \<not> object_truthy parentAccount then io_throw ParentAccountTypeNotFound
                else if \<not> strict_eq (at_normalBalance parentAccount)
                             (debitCredit_val (in_normalBalance i))
                then io_throw NormalBalanceMismatch
                else io_return ()))
       (\<lambda>_.
         io_bind (one S INSERT_ledger_account_type
                    [P (JStr (in_slug i)), P (JStr (in_name i)), P (in_description i),
                     P (debitCredit_val (in_normalBalance i)),
                     P (JBool (in_isEntityLedgerAccount i)),
                     P (case in_parentLedgerAccountTypeId i of
                          None \<Rightarrow> JNull | Some parentId \<Rightarrow> JNum parentId)])
           (\<lambda>row.
             io_return \<lparr> at_description = in_description i,
                         at_id = field row ''id'',
                         at_isEntityLedgerAccount = JBool (in_isEntityLedgerAccount i),
                         at_name = JStr (in_name i),
                         at_normalBalance = debitCredit_val (in_normalBalance i),
                         at_parentLedgerAccountTypeId =
                           (case in_parentLedgerAccountTypeId i of
                              None \<Rightarrow> JNull | Some parentId \<Rightarrow> JNum parentId),
                         at_slug = JStr (in_slug i) \<rparr>)) s1"
  using assms
  by (cases existing) (simp_all add: insertAccountType_def io_bind_def)







section \<open>The parent that is not found\<close>

lemma never_raisesI: "(\<And>s. fst (m s) \<noteq> Inl e) \<Longrightarrow> never_raises e m"
  by (simp add: never_raises_def)

lemma never_raisesD: "never_raises e m \<Longrightarrow> fst (m s) \<noteq> Inl e"
  unfolding never_raises_def by blast

lemma never_raises_return: "never_raises e (io_return a)"
  by (simp add: never_raises_def io_return_def)

lemma never_raises_throw: "e' \<noteq> e \<Longrightarrow> never_raises e (io_throw e')"
  by (simp add: never_raises_def io_throw_def)

lemma never_raises_lift: "x \<noteq> Inl e \<Longrightarrow> never_raises e (io_lift x)"
  by (simp add: never_raises_def io_lift_def)

lemma never_raises_bind:
  assumes "never_raises e m" "\<And>a. never_raises e (f a)"
  shows "never_raises e (io_bind m f)"
proof (rule never_raisesI)
  fix s
  obtain r s1 where m: "m s = (r, s1)" by (metis prod.exhaust)
  with never_raisesD[OF assms(1), of s] have "r \<noteq> Inl e" by simp
  with m never_raisesD[OF assms(2)] show "fst (io_bind m f s) \<noteq> Inl e"
    by (cases r) (simp_all add: io_bind_def)
qed

lemma never_raises_queryable_query:
  "never_raises ParentAccountTypeNotFound (queryable_query S t ps)"
  by (auto simp: never_raises_def queryable_query_def call_query_def io_throw_def
           split: option.splits prod.splits sum.splits)

lemma never_raises_maybeOne: "never_raises ParentAccountTypeNotFound (maybeOne S t ps)"
  unfolding maybeOne_def any_rows_def
  by (intro never_raises_bind never_raises_queryable_query)
     (auto simp: never_raises_return never_raises_throw split: qresult.split)

lemma never_raises_one: "never_raises ParentAccountTypeNotFound (one S t ps)"
  unfolding one_def
  by (intro never_raises_bind never_raises_maybeOne)
     (auto simp: never_raises_return never_raises_throw split: option.split)

lemma mapLedgerAccountType_error:
  "mapLedgerAccountType row \<noteq> Inl ParentAccountTypeNotFound"
  by (auto simp: mapLedgerAccountType_def toDatabaseId_def Let_def
           split: jsval.splits sum.splits)

lemma never_raises_findAccountTypeBySlug:
  "never_raises ParentAccountTypeNotFound (findAccountTypeBySlug S slug)"
  unfolding findAccountTypeBySlug_def
  by (intro never_raises_bind never_raises_maybeOne)
     (auto intro!: never_raises_bind never_raises_lift never_raises_return
           simp: mapLedgerAccountType_error split: option.split)

lemma never_raises_getSavedAccountTypeById:
  "never_raises ParentAccountTypeNotFound (getSavedAccountTypeById S typeId)"
  unfolding getSavedAccountTypeById_def
  by (intro never_raises_bind never_raises_maybeOne)
     (auto intro!: never_raises_lift never_raises_throw
           simp: mapLedgerAccountType_error split: option.split)

lemma never_raises_insertAccountType:
  "never_raises ParentAccountTypeNotFound (insertAccountType S i)"
  unfolding insertAccountType_def object_truthy_def
  by (intro never_raises_bind never_raises_findAccountTypeBySlug)
     (auto intro!: never_raises_bind never_raises_getSavedAccountTypeById never_raises_one
                   never_raises_return never_raises_throw
           split: option.split)

text \<open>
  C10, as stated, fails on the code for the parent id 0: no account type has that id,
  the lookup of the parent is skipped, and the row is inserted.
\<close>

theorem C10_counterexample:
  "in_parentLedgerAccountTypeId (child_type (Some (Finite 0)) ''SYSTEM_FEES'') = Some (Finite 0)
   \<and> PgQueryRunner_query (script_library (script seeded_types (Inr [])))
       SELECT_ledger_account_type_BY_id [P (JNum (Finite 0))] (runner_at 1 False)
     = (Inr (ResultArray []), runner_at 2 False)
   \<and> insertAccountType (seeded_storage True) (child_type (Some (Finite 0)) ''SYSTEM_FEES'')
       (fresh_runner, [])
     = (Inr (persisted_fees (JNum (Finite 0))),
        (runner_at 2 False, [fees_lookup_call, fees_insert_call (JNum (Finite 0))]))"
  by code_simp

text \<open>
  C10, amended. \<open>insertAccountType\<close> never raises the parent-account-type-not-found
  error: the value \<open>getSavedAccountTypeById\<close> returns is an object, and the branch that
  tests it is dead. When the check of the slug passes, the parent id is given and is not
  0, and the lookup by that id answers with no row, the error raised is the generic
  account-type-id-not-found error of \<open>getSavedAccountTypeById\<close>, after the two lookups
  and nothing else.
\<close>

theorem C10_parent_not_found:
  "fst (insertAccountType S i s) \<noteq> Inl ParentAccountTypeNotFound
   \<and> (findAccountTypeBySlug S (in_slug i) s = (Inr existing, (w1, cs1))
      \<and> (case existing of None \<Rightarrow> True | Some b \<Rightarrow> truthy (at_isEntityLedgerAccount b))
      \<and> in_parentLedgerAccountTypeId i = Some parentId \<and> truthy (JNum parentId)
      \<and> query (queryable S) = Some q
      \<and> q SELECT_ledger_account_type_BY_id [P (JNum parentId)] w1 = (Inr v, w2)
      \<and> rows_of v = Some []
      \<longrightarrow> insertAccountType S i s
            = (Inl (AccountTypeIdNotFound parentId),
               (w2, cs1 @ [QueryCall SELECT_ledger_account_type_BY_id [P (JNum parentId)]
                             (Inr v)])))"
proof (intro conjI impI)
  show "fst (insertAccountType S i s) \<noteq> Inl ParentAccountTypeNotFound"
    by (rule never_raisesD[OF never_raises_insertAccountType])
next
  assume h: "findAccountTypeBySlug S (in_slug i) s = (Inr existing, (w1, cs1))
      \<and> (case existing of None \<Rightarrow> True | Some b \<Rightarrow> truthy (at_isEntityLedgerAccount b))
      \<and> in_parentLedgerAccountTypeId i = Some parentId \<and> truthy (JNum parentId)
      \<and> query (queryable S) = Some q
      \<and> q SELECT_ledger_account_type_BY_id [P (JNum parentId)] w1 = (Inr v, w2)
      \<and> rows_of v = Some []"
  then have "getSavedAccountTypeById S parentId (w1, cs1)
               = (Inl (AccountTypeIdNotFound parentId),
                  (w2, cs1 @ [QueryCall SELECT_ledger_account_type_BY_id [P (JNum parentId)]
                                (Inr v)]))"
    using maybeOne_answered[of S q SELECT_ledger_account_type_BY_id "[P (JNum parentId)]"
                               w1 v w2 cs1]
    by (simp add: getSavedAccountTypeById_def io_bind_def io_throw_def)
  with h insertAccountType_passes[of S i s existing "(w1, cs1)"]
  show "insertAccountType S i s
            = (Inl (AccountTypeIdNotFound parentId),
               (w2, cs1 @ [QueryCall SELECT_ledger_account_type_BY_id [P (JNum parentId)]
                             (Inr v)]))"
    by (simp add: io_bind_def)
qed

theorem C10_parent_not_found_witness:
  "findAccountTypeBySlug (seeded_storage True)
     (in_slug (child_type (Some (Finite 7)) ''SYSTEM_FEES'')) (fresh_runner, [])
   = (Inr None, (runner_at 1 False, [fees_lookup_call]))
   \<and> in_parentLedgerAccountTypeId (child_type (Some (Finite 7)) ''SYSTEM_FEES'')
       = Some (Finite 7)
   \<and> truthy (JNum (Finite 7))
   \<and> query (queryable (seeded_storage True))
       = Some (PgQueryRunner_query (script_library (script seeded_types (Inr []))))
   \<and> PgQueryRunner_query (script_library (script seeded_types (Inr [])))
       SELECT_ledger_account_type_BY_id [P (JNum (Finite 7))] (runner_at 1 False)
     = (Inr (ResultArray []), runner_at 2 False)
   \<and> rows_of (ResultArray []) = Some []
   \<and> insertAccountType (seeded_storage True) (child_type (Some (Finite 7)) ''SYSTEM_FEES'')
       (fresh_runner, [])
     = (Inl (AccountTypeIdNotFound (Finite 7)),
        (runner_at 2 False,
         [fees_lookup_call]
           @ [QueryCall SELECT_ledger_account_type_BY_id [P (JNum (Finite 7))]
                (Inr (ResultArray []))]))"
proof -
  let ?q = "PgQueryRunner_query (script_library (script seeded_types (Inr [])))"
  have f: "findAccountTypeBySlug (seeded_storage True)
     (in_slug (child_type (Some (Finite 7)) ''SYSTEM_FEES'')) (fresh_runner, [])
   = (Inr None, (runner_at 1 False, [fees_lookup_call]))"
    by code_simp
  have p: "in_parentLedgerAccountTypeId (child_type (Some (Finite 7)) ''SYSTEM_FEES'')
       = Some (Finite 7)"
    by (simp add: child_type_def)
  have t: "truthy (JNum (Finite 7))" by simp
  have q: "query (queryable (seeded_storage True)) = Some ?q"
    by (simp add: seeded_storage_def seeded_query)
  have a: "?q SELECT_ledger_account_type_BY_id [P (JNum (Finite 7))] (runner_at 1 False)
     = (Inr (ResultArray []), runner_at 2 False)"
    by code_simp
  have r: "rows_of (ResultArray []) = Some []" by simp
  have "insertAccountType (seeded_storage True) (child_type (Some (Finite 7)) ''SYSTEM_FEES'')
       (fresh_runner, [])
     = (Inl (AccountTypeIdNotFound (Finite 7)),
        (runner_at 2 False,
         [fees_lookup_call]
           @ [QueryCall SELECT_ledger_account_type_BY_id [P (JNum (Finite 7))]
                (Inr (ResultArray []))]))"
    using C10_parent_not_found[THEN conjunct2, rule_format,
            of "seeded_storage True" "child_type (Some (Finite 7)) ''SYSTEM_FEES''"
               "(fresh_runner, [])" None "runner_at 1 False" "[fees_lookup_call]" "Finite 7"
               ?q "ResultArray []" "runner_at 2 False"]
          f p t q a r
    by simp
  with f p t q a r show ?thesis by blast
qed

end
